theory Spec2Isabelle
  imports Complex_Main "HOL-Library.Product_Lexorder" "HOL-Library.Multiset"
begin

section \<open>Strings\<close>

text \<open>
  Cells of the publications table are Python \<open>str\<close> values. They are modelled as
  \<open>string\<close>; the case mappings and the whitespace classes below cover the ASCII range,
  every other character is left as it is.
\<close>

definition ascii_upper_letters :: string where
  "ascii_upper_letters = ''ABCDEFGHIJKLMNOPQRSTUVWXYZ''"

definition ascii_lower_letters :: string where
  "ascii_lower_letters = ''abcdefghijklmnopqrstuvwxyz''"

definition lower_char :: "char \<Rightarrow> char" where
  "lower_char c =
     (case map_of (zip ascii_upper_letters ascii_lower_letters) c of
        Some d \<Rightarrow> d | None \<Rightarrow> c)"

definition upper_char :: "char \<Rightarrow> char" where
  "upper_char c =
     (case map_of (zip ascii_lower_letters ascii_upper_letters) c of
        Some d \<Rightarrow> d | None \<Rightarrow> c)"

text \<open>\<^verbatim>\<open>s.lower()\<close> and \<^verbatim>\<open>s.upper()\<close>.\<close>

definition str_lower :: "string \<Rightarrow> string" where
  "str_lower s = map lower_char s"

definition str_upper :: "string \<Rightarrow> string" where
  "str_upper s = map upper_char s"

fun starts_with :: "string \<Rightarrow> string \<Rightarrow> bool" where
  "starts_with [] s = True"
| "starts_with (p # ps) [] = False"
| "starts_with (p # ps) (c # cs) = (p = c \<and> starts_with ps cs)"

text \<open>
  \<^verbatim>\<open>Series.str.contains(pat)\<close> searches for the regular expression \<open>pat\<close>; the three
  patterns of the build (\<open>book chapter\<close>, \<open>oral\<close>, \<open>poster\<close>) have no metacharacter, so
  the search is for a substring.
\<close>

fun str_contains :: "string \<Rightarrow> string \<Rightarrow> bool" where
  "str_contains [] pat = (pat = [])"
| "str_contains (c # cs) pat = (starts_with pat (c # cs) \<or> str_contains cs pat)"

text \<open>The characters \<^verbatim>\<open>Py_ISSPACE\<close> accepts: space, \<open>\t\<close>, \<open>\n\<close>, \<open>\v\<close>, \<open>\f\<close>, \<open>\r\<close>.\<close>

definition is_c_space :: "char \<Rightarrow> bool" where
  "is_c_space c = (of_char c \<in> {9, 10, 11, 12, 13, 32 :: nat})"

text \<open>The ASCII characters \<^verbatim>\<open>str.isspace\<close> accepts: the above and the separators 28 to 31.\<close>

definition is_str_space :: "char \<Rightarrow> bool" where
  "is_str_space c = (of_char c \<in> {9, 10, 11, 12, 13, 28, 29, 30, 31, 32 :: nat})"

definition strip_with :: "(char \<Rightarrow> bool) \<Rightarrow> string \<Rightarrow> string" where
  "strip_with sp s = rev (dropWhile sp (rev (dropWhile sp s)))"

text \<open>\<^verbatim>\<open>s.strip()\<close>.\<close>

definition str_strip :: "string \<Rightarrow> string" where
  "str_strip s = strip_with is_str_space s"

definition is_digit :: "char \<Rightarrow> bool" where
  "is_digit c = (c \<in> set ''0123456789'')"

definition digit_val :: "char \<Rightarrow> nat" where
  "digit_val c = of_char c - 48"

text \<open>The value of a run of decimal digits.\<close>

definition digits_val :: "string \<Rightarrow> nat" where
  "digits_val ds = foldl (\<lambda>n c. 10 * n + digit_val c) 0 ds"

fun span_digits :: "string \<Rightarrow> string \<times> string" where
  "span_digits [] = ([], [])"
| "span_digits (c # cs) =
     (if is_digit c then (case span_digits cs of (ds, r) \<Rightarrow> (c # ds, r)) else ([], c # cs))"

section \<open>Python values\<close>

text \<open>
  A Python \<open>float\<close> is a finite value, an infinity or NaN. Finite values are kept as exact
  rationals: the rounding of binary64 and its range are left out, so that a sum below is
  the exact sum. What is modelled is which values enter a sum and how the special values
  propagate.
\<close>

datatype pyfloat = Fin rat | PInf | NInf | NaN

fun fadd :: "pyfloat \<Rightarrow> pyfloat \<Rightarrow> pyfloat" where
  "fadd NaN y = NaN"
| "fadd x NaN = NaN"
| "fadd PInf NInf = NaN"
| "fadd NInf PInf = NaN"
| "fadd PInf y = PInf"
| "fadd x PInf = PInf"
| "fadd NInf y = NInf"
| "fadd x NInf = NInf"
| "fadd (Fin a) (Fin b) = Fin (a + b)"

fun fneg :: "pyfloat \<Rightarrow> pyfloat" where
  "fneg (Fin a) = Fin (- a)"
| "fneg PInf = NInf"
| "fneg NInf = PInf"
| "fneg NaN = NaN"

text \<open>The exceptions the build can raise.\<close>

datatype read_error = UnicodeDecodeError | ParserError

datatype exn =
    ValueError | TypeError | OverflowError | UnboundLocalError
  | FileNotFoundError | JSONDecodeError | ImportError | ReadError read_error

text \<open>
  The values a coercion can be applied to. \<^verbatim>\<open>read_csv(dtype=str, keep_default_na=False)\<close>
  followed by \<^verbatim>\<open>fillna("")\<close> gives \<open>str\<close> cells; \<open>None\<close> and the float NaN are the
  markers of a missing value that the coercions test for.
\<close>

datatype pyval = PNone | PNaN | PStr string

text \<open>\<^verbatim>\<open>pd.isna(x)\<close> on a scalar: true for \<open>None\<close> and for NaN, false for a string.\<close>

fun pd_isna :: "pyval \<Rightarrow> bool" where
  "pd_isna PNone = True"
| "pd_isna PNaN = True"
| "pd_isna (PStr s) = False"

subsection \<open>\<^verbatim>\<open>float(x)\<close>\<close>

text \<open>
  Underscores in a numeric literal: one underscore may stand between two digits.
  \<open>prev\<close> is the character before the current one (\<open>None\<close> at the start). The result
  is the text without its underscores, or \<open>None\<close> when an underscore is misplaced.
\<close>

fun drop_underscores :: "char option \<Rightarrow> string \<Rightarrow> string option" where
  "drop_underscores prev [] = (if prev = Some CHR ''_'' then None else Some [])"
| "drop_underscores prev (c # cs) =
     (if c = CHR ''_'' then
        (case prev of
           None \<Rightarrow> None
         | Some p \<Rightarrow> if is_digit p then drop_underscores (Some c) cs else None)
      else if prev = Some CHR ''_'' \<and> \<not> is_digit c then None
      else map_option ((#) c) (drop_underscores (Some c) cs))"

fun take_sign :: "string \<Rightarrow> bool \<times> string" where
  "take_sign [] = (False, [])"
| "take_sign (c # cs) =
     (if c = CHR ''-'' then (True, cs) else if c = CHR ''+'' then (False, cs)
      else (False, c # cs))"

definition signed :: "bool \<Rightarrow> pyfloat \<Rightarrow> pyfloat" where
  "signed neg x = (if neg then fneg x else x)"

text \<open>\<open>m \<sqdot> 10\<^sup>e\<close> for an integer exponent.\<close>

definition scale10 :: "rat \<Rightarrow> int \<Rightarrow> rat" where
  "scale10 m e = (if 0 \<le> e then m * 10 ^ nat e else m / 10 ^ nat (- e))"

text \<open>
  The exponent part of a decimal literal, after the mantissa: nothing, or \<open>e\<close> or \<open>E\<close>, an
  optional sign and at least one digit, up to the end of the text.
\<close>

fun parse_exponent :: "string \<Rightarrow> int option" where
  "parse_exponent [] = Some 0"
| "parse_exponent (c # cs) =
     (if c = CHR ''e'' \<or> c = CHR ''E'' then
        (case take_sign cs of
           (neg, r) \<Rightarrow>
             (case span_digits r of
                (ds, rest) \<Rightarrow>
                  if ds = [] \<or> rest \<noteq> [] then None
                  else Some (if neg then - int (digits_val ds) else int (digits_val ds))))
      else None)"

text \<open>
  A decimal literal without sign: digits, an optional point and digits (at least one digit
  in all), an optional exponent.
\<close>

definition parse_decimal :: "string \<Rightarrow> rat option" where
  "parse_decimal s =
     (case span_digits s of
        (ip, r1) \<Rightarrow>
          (case (case r1 of
                   [] \<Rightarrow> ([], [])
                 | c # cs \<Rightarrow> if c = CHR ''.'' then span_digits cs else ([], c # cs)) of
             (fp, r2) \<Rightarrow>
               if ip = [] \<and> fp = [] then None
               else
                 (case parse_exponent r2 of
                    None \<Rightarrow> None
                  | Some e \<Rightarrow>
                      Some (scale10 (of_nat (digits_val (ip @ fp))) (e - int (length fp))))))"

text \<open>
  \<^verbatim>\<open>float(s)\<close> for a string: surrounding whitespace is dropped, then the text is
  \<open>inf\<close>, \<open>infinity\<close> or \<open>nan\<close> in any case, or a decimal literal, each with an optional
  sign. Anything else raises \<open>ValueError\<close>.
\<close>

definition float_of_str :: "string \<Rightarrow> exn + pyfloat" where
  "float_of_str s =
     (case drop_underscores None (strip_with is_c_space s) of
        None \<Rightarrow> Inl ValueError
      | Some t \<Rightarrow>
          (case take_sign t of
             (neg, r) \<Rightarrow>
               if str_lower r = ''inf'' \<or> str_lower r = ''infinity'' then Inr (signed neg PInf)
               else if str_lower r = ''nan'' then Inr NaN
               else
                 (case parse_decimal r of
                    None \<Rightarrow> Inl ValueError
                  | Some q \<Rightarrow> Inr (signed neg (Fin q)))))"

text \<open>\<^verbatim>\<open>float(x)\<close>: \<open>None\<close> raises \<open>TypeError\<close>, a float is returned as it is.\<close>

fun py_float :: "pyval \<Rightarrow> exn + pyfloat" where
  "py_float PNone = Inl TypeError"
| "py_float PNaN = Inr NaN"
| "py_float (PStr s) = float_of_str s"

text \<open>
  \<^verbatim>\<open>int(f)\<close> for a float: truncation towards zero; \<open>OverflowError\<close> for an infinity,
  \<open>ValueError\<close> for NaN.
\<close>

definition trunc_rat :: "rat \<Rightarrow> int" where
  "trunc_rat q = (if 0 \<le> q then \<lfloor>q\<rfloor> else \<lceil>q\<rceil>)"

fun py_int_of_float :: "pyfloat \<Rightarrow> exn + int" where
  "py_int_of_float (Fin q) = Inr (trunc_rat q)"
| "py_int_of_float PInf = Inl OverflowError"
| "py_int_of_float NInf = Inl OverflowError"
| "py_int_of_float NaN = Inl ValueError"

subsection \<open>The coercions\<close>

text \<open>
  \<^verbatim>\<open>try: body except Exception: return None\<close>: whatever the body raises becomes the
  result \<open>None\<close>. The result keeps the type \<open>exn + _\<close> of a call that could raise.
\<close>

definition except_none :: "exn + 'a option \<Rightarrow> exn + 'a option" where
  "except_none body = (case body of Inl e \<Rightarrow> Inr None | Inr r \<Rightarrow> Inr r)"

definition safe_float :: "pyval \<Rightarrow> exn + pyfloat option" where
  "safe_float x =
     except_none
       (if pd_isna x then Inr None
        else (case py_float x of Inl e \<Rightarrow> Inl e | Inr f \<Rightarrow> Inr (Some f)))"

definition safe_int :: "pyval \<Rightarrow> exn + int option" where
  "safe_int x =
     except_none
       (if pd_isna x then Inr None
        else
          (case py_float x of
             Inl e \<Rightarrow> Inl e
           | Inr f \<Rightarrow> (case py_int_of_float f of Inl e \<Rightarrow> Inl e | Inr i \<Rightarrow> Inr (Some i))))"

section \<open>Dates\<close>

text \<open>
  \<^verbatim>\<open>datetime.strptime\<close> with the two formats of the build returns a \<open>datetime\<close> at
  midnight, kept here as its calendar date.
\<close>

record date =
  d_year :: nat
  d_month :: nat
  d_day :: nat

datatype date_format = DATE_FMT | ISO_FMT

definition is_leap :: "nat \<Rightarrow> bool" where
  "is_leap y = (y mod 4 = 0 \<and> (y mod 100 \<noteq> 0 \<or> y mod 400 = 0))"

definition days_in_month :: "nat \<Rightarrow> nat \<Rightarrow> nat" where
  "days_in_month y m =
     (if m = 2 then (if is_leap y then 29 else 28)
      else if m \<in> {4, 6, 9, 11} then 30 else 31)"

definition days_before_year :: "nat \<Rightarrow> nat" where
  "days_before_year y = (y - 1) * 365 + (y - 1) div 4 - (y - 1) div 100 + (y - 1) div 400"

definition days_before_month :: "nat \<Rightarrow> nat \<Rightarrow> nat" where
  "days_before_month y m = sum_list (map (days_in_month y) [1..<m])"

text \<open>\<^verbatim>\<open>date.toordinal()\<close>: day 1 is 1 January of year 1.\<close>

definition toordinal :: "date \<Rightarrow> nat" where
  "toordinal d = days_before_year (d_year d) + days_before_month (d_year d) (d_month d) + d_day d"

text \<open>
  \<^verbatim>\<open>dt.timestamp()\<close> of the midnight of a date, in seconds since 1 January 1970
  (ordinal 719163), with the offset of the local zone taken as zero.
\<close>

definition timestamp :: "date \<Rightarrow> int" where
  "timestamp d = (int (toordinal d) - 719163) * 86400"

text \<open>
  The directives of a format are regular expressions with alternatives, tried in their
  order with backtracking. A matcher returns every way to match a prefix of the text, in
  the order the regular expression engine tries them, each with the text that is left.
\<close>

definition one_char :: "(char \<Rightarrow> bool) \<Rightarrow> string \<Rightarrow> (string \<times> string) list" where
  "one_char p s = (case s of [] \<Rightarrow> [] | a # r \<Rightarrow> if p a then [([a], r)] else [])"

definition two_chars ::
  "(char \<Rightarrow> bool) \<Rightarrow> (char \<Rightarrow> bool) \<Rightarrow> string \<Rightarrow> (string \<times> string) list" where
  "two_chars p q s =
     (case s of
        a # b # r \<Rightarrow> if p a \<and> q b then [([a, b], r)] else []
      | _ \<Rightarrow> [])"

definition is_nonzero_digit :: "char \<Rightarrow> bool" where
  "is_nonzero_digit c = (c \<in> set ''123456789'')"

text \<open>\<^verbatim>\<open>int(text)\<close> of a matched group: digits, after an optional space.\<close>

definition group_val :: "string \<Rightarrow> nat" where
  "group_val g = digits_val (filter is_digit g)"

text \<open>\<open>%d\<close>: \<^verbatim>\<open>3[0-1]|[1-2]\d|0[1-9]|[1-9]| [1-9]\<close>.\<close>

definition match_d :: "string \<Rightarrow> (nat \<times> string) list" where
  "match_d s =
     map (\<lambda>(g, r). (group_val g, r))
       (two_chars (\<lambda>c. c = CHR ''3'') (\<lambda>c. c \<in> set ''01'') s
        @ two_chars (\<lambda>c. c \<in> set ''12'') is_digit s
        @ two_chars (\<lambda>c. c = CHR ''0'') is_nonzero_digit s
        @ one_char is_nonzero_digit s
        @ two_chars (\<lambda>c. c = CHR '' '') is_nonzero_digit s)"

text \<open>\<open>%m\<close>: \<^verbatim>\<open>1[0-2]|0[1-9]|[1-9]\<close>.\<close>

definition match_m :: "string \<Rightarrow> (nat \<times> string) list" where
  "match_m s =
     map (\<lambda>(g, r). (group_val g, r))
       (two_chars (\<lambda>c. c = CHR ''1'') (\<lambda>c. c \<in> set ''012'') s
        @ two_chars (\<lambda>c. c = CHR ''0'') is_nonzero_digit s
        @ one_char is_nonzero_digit s)"

text \<open>\<open>%Y\<close>: \<^verbatim>\<open>\d\d\d\d\<close>.\<close>

definition match_Y :: "string \<Rightarrow> (nat \<times> string) list" where
  "match_Y s =
     (case s of
        a # b # c # d # r \<Rightarrow>
          if is_digit a \<and> is_digit b \<and> is_digit c \<and> is_digit d
          then [(digits_val [a, b, c, d], r)] else []
      | _ \<Rightarrow> [])"

definition match_lit :: "char \<Rightarrow> string \<Rightarrow> string list" where
  "match_lit c s = (case s of [] \<Rightarrow> [] | a # r \<Rightarrow> if a = c then [r] else [])"

text \<open>
  The matches of a whole format, as (year, month, day) and the unconverted rest:
  \<open>%d.%m.%Y\<close> and \<open>%Y-%m-%d\<close>.
\<close>

fun format_matches :: "date_format \<Rightarrow> string \<Rightarrow> ((nat \<times> nat \<times> nat) \<times> string) list" where
  "format_matches DATE_FMT s =
     List.bind (match_d s) (\<lambda>(d, r1).
     List.bind (match_lit CHR ''.'' r1) (\<lambda>r2.
     List.bind (match_m r2) (\<lambda>(m, r3).
     List.bind (match_lit CHR ''.'' r3) (\<lambda>r4.
     map (\<lambda>(y, r5). ((y, m, d), r5)) (match_Y r4)))))"
| "format_matches ISO_FMT s =
     List.bind (match_Y s) (\<lambda>(y, r1).
     List.bind (match_lit CHR ''-'' r1) (\<lambda>r2.
     List.bind (match_m r2) (\<lambda>(m, r3).
     List.bind (match_lit CHR ''-'' r3) (\<lambda>r4.
     map (\<lambda>(d, r5). ((y, m, d), r5)) (match_d r4)))))"

text \<open>
  \<^verbatim>\<open>datetime.strptime(s, fmt)\<close>: the first match of the format; \<open>ValueError\<close> when
  there is none, when text is left after it, or when the numbers are no date (year 0, a
  day beyond the end of the month).
\<close>

definition strptime :: "string \<Rightarrow> date_format \<Rightarrow> exn + date" where
  "strptime s fmt =
     (case format_matches fmt s of
        [] \<Rightarrow> Inl ValueError
      | ((y, m, d), rest) # _ \<Rightarrow>
          if rest \<noteq> [] then Inl ValueError
          else if y < 1 \<or> d < 1 \<or> days_in_month y m < d then Inl ValueError
          else Inr \<lparr>d_year = y, d_month = m, d_day = d\<rparr>)"

text \<open>The loop over the formats: a format that raises is skipped.\<close>

fun try_formats :: "string \<Rightarrow> date_format list \<Rightarrow> exn + date option" where
  "try_formats s [] = Inr None"
| "try_formats s (fmt # fmts) =
     (case strptime s fmt of
        Inr d \<Rightarrow> Inr (Some d)
      | Inl e \<Rightarrow> try_formats s fmts)"

definition parse_date_ddmmyyyy :: "pyval \<Rightarrow> exn + date option" where
  "parse_date_ddmmyyyy x =
     (case x of
        PNone \<Rightarrow> Inr None
      | PNaN \<Rightarrow> Inr None
      | PStr t \<Rightarrow>
          (let s = str_strip t
           in if s = [] then Inr None else try_formats s [DATE_FMT, ISO_FMT]))"

section \<open>The publications table\<close>

text \<open>
  A row of \<^verbatim>\<open>publications.csv\<close> as \<^verbatim>\<open>read_csv\<close> returns it: every cell is a string, an
  empty one where the file has nothing. The table is taken to have the thirteen columns the
  build uses.
\<close>

record rawrow =
  record_type :: string
  year :: string
  category :: string
  subtype :: string
  citation :: string
  doi :: string
  mnicsw_points :: string
  impact_factor :: string
  start_date :: string
  end_date :: string
  city :: string
  country :: string
  award :: string

text \<open>
  A cell of the column \<open>year_int\<close>. \<^verbatim>\<open>Series.apply\<close> collects the results of the
  coercion into one array and chooses its type: a column of ints stays a column of ints, a
  column with ints and \<open>None\<close> becomes a column of floats with NaN for \<open>None\<close>, a column of
  \<open>None\<close> alone keeps its objects.
\<close>

datatype year_cell = YInt int | YFloat pyfloat | YNone

definition infer_year_column :: "int option list \<Rightarrow> year_cell list" where
  "infer_year_column ys =
     (if (\<exists>y \<in> set ys. y = None) \<and> (\<exists>y \<in> set ys. y \<noteq> None)
      then map (\<lambda>y. case y of None \<Rightarrow> YFloat NaN | Some i \<Rightarrow> YFloat (Fin (of_int i))) ys
      else map (\<lambda>y. case y of None \<Rightarrow> YNone | Some i \<Rightarrow> YInt i) ys)"

text \<open>
  The table after \<^verbatim>\<open>load_publications_df\<close>: the cells of the file and the five coerced
  columns. In the columns of floats and of dates \<open>None\<close> stands for the missing value
  (\<open>None\<close>, NaN written for \<open>None\<close>, or \<open>NaT\<close>), which the build never tells apart.
\<close>

record pubrow = rawrow +
  year_int :: year_cell
  mnicsw_points_num :: "pyfloat option"
  impact_factor_num :: "pyfloat option"
  start_date_dt :: "date option"
  end_date_dt :: "date option"

type_synonym dataframe = "pubrow list"

definition with_columns ::
  "rawrow \<Rightarrow> year_cell \<Rightarrow> pyfloat option \<Rightarrow> pyfloat option \<Rightarrow> date option \<Rightarrow> date option
     \<Rightarrow> pubrow" where
  "with_columns r y p f s e =
     \<lparr>record_type = record_type r, year = year r, category = category r,
      subtype = subtype r, citation = citation r, doi = doi r,
      mnicsw_points = mnicsw_points r, impact_factor = impact_factor r,
      start_date = start_date r, end_date = end_date r, city = city r,
      country = country r, award = award r,
      year_int = y, mnicsw_points_num = p, impact_factor_num = f,
      start_date_dt = s, end_date_dt = e\<rparr>"

text \<open>Sequencing of calls that can raise.\<close>

definition bind_exn :: "exn + 'a \<Rightarrow> ('a \<Rightarrow> exn + 'b) \<Rightarrow> exn + 'b" where
  "bind_exn r f = (case r of Inl e \<Rightarrow> Inl e | Inr a \<Rightarrow> f a)"

text \<open>\<^verbatim>\<open>Series.apply(f)\<close>: the function is called on every cell in turn; an exception ends it.\<close>

fun series_apply :: "('a \<Rightarrow> exn + 'b) \<Rightarrow> 'a list \<Rightarrow> exn + 'b list" where
  "series_apply f [] = Inr []"
| "series_apply f (x # xs) =
     bind_exn (f x) (\<lambda>y. bind_exn (series_apply f xs) (\<lambda>ys. Inr (y # ys)))"

fun assemble ::
  "rawrow list \<Rightarrow> year_cell list \<Rightarrow> pyfloat option list \<Rightarrow> pyfloat option list
     \<Rightarrow> date option list \<Rightarrow> date option list \<Rightarrow> dataframe" where
  "assemble (r # rs) (y # ys) (p # ps) (f # fs) (s # ss) (e # es) =
     with_columns r y p f s e # assemble rs ys ps fs ss es"
| "assemble rs ys ps fs ss es = []"

text \<open>The second half of \<^verbatim>\<open>load_publications_df\<close>: the coercion of the numeric and date columns.\<close>

definition coerce_columns :: "rawrow list \<Rightarrow> exn + dataframe" where
  "coerce_columns raw =
     bind_exn (series_apply safe_int (map (\<lambda>r. PStr (year r)) raw)) (\<lambda>ys.
     bind_exn (series_apply safe_float (map (\<lambda>r. PStr (mnicsw_points r)) raw)) (\<lambda>ps.
     bind_exn (series_apply safe_float (map (\<lambda>r. PStr (impact_factor r)) raw)) (\<lambda>fs.
     bind_exn (series_apply parse_date_ddmmyyyy (map (\<lambda>r. PStr (start_date r)) raw)) (\<lambda>ss.
     bind_exn (series_apply parse_date_ddmmyyyy (map (\<lambda>r. PStr (end_date r)) raw)) (\<lambda>es.
     Inr (assemble raw (infer_year_column ys) ps fs ss es))))))"

section \<open>The summary\<close>

text \<open>A number as \<^verbatim>\<open>json.dumps\<close> writes it: an int or a float.\<close>

datatype json_number = JInt int | JFloat pyfloat

datatype jval =
    JNull | JStr string | JNum json_number | JBool bool
  | JArr "jval list" | JObj "(string \<times> jval) list"

type_synonym pydict = "(string \<times> jval) list"

text \<open>\<^verbatim>\<open>d.get(key, "")\<close>.\<close>

definition dict_get :: "pydict \<Rightarrow> string \<Rightarrow> jval" where
  "dict_get d k = (case map_of d k of Some v \<Rightarrow> v | None \<Rightarrow> JStr [])"

text \<open>\<^verbatim>\<open>Series.dropna()\<close>: the missing values and the NaN values are removed.\<close>

definition dropna :: "pyfloat option list \<Rightarrow> pyfloat list" where
  "dropna col = filter (\<lambda>f. f \<noteq> NaN) (List.map_filter id col)"

text \<open>\<^verbatim>\<open>Series.sum()\<close>: the sum of an empty column is 0.\<close>

definition series_sum :: "pyfloat list \<Rightarrow> pyfloat" where
  "series_sum xs = foldl fadd (Fin 0) xs"

text \<open>\<^verbatim>\<open>f.is_integer()\<close>.\<close>

fun is_integer :: "pyfloat \<Rightarrow> bool" where
  "is_integer (Fin q) = (q = of_int \<lfloor>q\<rfloor>)"
| "is_integer f = False"

text \<open>\<^verbatim>\<open>int(t) if float(t).is_integer() else t\<close>.\<close>

definition int_if_integer :: "pyfloat \<Rightarrow> json_number" where
  "int_if_integer t =
     (case t of
        Fin q \<Rightarrow> if is_integer (Fin q) then JInt (trunc_rat q) else JFloat t
      | _ \<Rightarrow> JFloat t)"

text \<open>Rounding to the nearest integer, a tie to the even one.\<close>

definition round_half_even :: "rat \<Rightarrow> int" where
  "round_half_even x =
     (let f = \<lfloor>x\<rfloor>; d = x - of_int f
      in if d < 1 / 2 then f else if 1 / 2 < d then f + 1
         else if even f then f else f + 1)"

text \<open>\<^verbatim>\<open>round(t, 3)\<close>: a float again; an infinity and NaN are returned as they are.\<close>

definition round3 :: "pyfloat \<Rightarrow> pyfloat" where
  "round3 t = (case t of Fin q \<Rightarrow> Fin (of_int (round_half_even (q * 1000)) / 1000) | _ \<Rightarrow> t)"

text \<open>The masks of \<^verbatim>\<open>compute_summary\<close>, as predicates of a row.\<close>

definition is_list_a :: "'a pubrow_scheme \<Rightarrow> bool" where
  "is_list_a r = (str_upper (category r) = ''A'')"

definition is_chapter :: "'a pubrow_scheme \<Rightarrow> bool" where
  "is_chapter r =
     (record_type r = ''book_chapter'' \<or> str_contains (str_lower (category r)) ''book chapter'')"

definition is_list_b :: "'a pubrow_scheme \<Rightarrow> bool" where
  "is_list_b r = (str_upper (category r) = ''B'' \<or> is_chapter r)"

definition is_conf :: "'a pubrow_scheme \<Rightarrow> bool" where
  "is_conf r =
     (record_type r = ''conference_contribution'' \<or> str_lower (category r) = ''conference'')"

text \<open>\<^verbatim>\<open>df["subtype"].str.lower().str.contains(pat)\<close>.\<close>

definition subtype_has :: "string \<Rightarrow> 'a pubrow_scheme \<Rightarrow> bool" where
  "subtype_has pat r = str_contains (str_lower (subtype r)) pat"

definition conf_oral :: "'a pubrow_scheme \<Rightarrow> bool" where
  "conf_oral r = (is_conf r \<and> subtype_has ''oral'' r)"

definition conf_poster :: "'a pubrow_scheme \<Rightarrow> bool" where
  "conf_poster r = (is_conf r \<and> subtype_has ''poster'' r)"

text \<open>\<^verbatim>\<open>int(mask.sum())\<close>: the number of rows of the mask.\<close>

definition count_where :: "(pubrow \<Rightarrow> bool) \<Rightarrow> dataframe \<Rightarrow> int" where
  "count_where msk df = int (length (filter msk df))"

record summary_totals =
  totals_mnicsw_points :: json_number
  sum_impact_factor :: pyfloat
  records_total :: int
  publications_list_a :: int
  publications_list_b :: int
  book_chapters :: int
  conference_contributions_total :: int
  conference_oral_presentations :: int
  conference_posters :: int
  conference_type_unspecified :: int

record summary_scholar =
  citations_all :: jval
  h_index_all :: jval
  i10_index_all :: jval
  last_updated :: jval
  profile_url :: jval

record summary =
  totals :: summary_totals
  scholar_metrics :: summary_scholar

text \<open>
  \<^verbatim>\<open>compute_summary\<close>. Of the dictionary it returns, \<open>totals\<close> and \<open>scholar_metrics\<close> are
  kept; \<open>computed_from\<close>, \<open>generated_on\<close> (the day of the run) and \<open>year_counts\<close> are left out.
\<close>

definition compute_summary :: "dataframe \<Rightarrow> pydict \<Rightarrow> summary" where
  "compute_summary df metrics =
     (let total_points = series_sum (dropna (map mnicsw_points_num df));
          total_if = series_sum (dropna (map impact_factor_num df))
      in \<lparr>totals =
            \<lparr>totals_mnicsw_points = int_if_integer total_points,
             sum_impact_factor = round3 total_if,
             records_total = int (length df),
             publications_list_a = count_where is_list_a df,
             publications_list_b = count_where is_list_b df,
             book_chapters = count_where is_chapter df,
             conference_contributions_total = count_where is_conf df,
             conference_oral_presentations = count_where conf_oral df,
             conference_posters = count_where conf_poster df,
             conference_type_unspecified =
               count_where (\<lambda>r. is_conf r \<and> \<not> (conf_oral r \<or> conf_poster r)) df\<rparr>,
          scholar_metrics =
            \<lparr>citations_all = dict_get metrics ''citations_all'',
             h_index_all = dict_get metrics ''h_index_all'',
             i10_index_all = dict_get metrics ''i10_index_all'',
             last_updated = dict_get metrics ''last_updated'',
             profile_url = dict_get metrics ''profile_url''\<rparr>\<rparr>)"

section \<open>The records of \<^verbatim>\<open>publications.json\<close>\<close>

text \<open>
  The key of a row in \<^verbatim>\<open>export_publications_json\<close>. The year is used when the cell of
  \<open>year_int\<close> is an int (\<^verbatim>\<open>isinstance(y, int)\<close>) and is \<open>-1\<close> otherwise; the second
  component is the timestamp of the start date, a whole number of seconds, or 0.
\<close>

definition export_sort_key :: "pubrow \<Rightarrow> int \<times> int" where
  "export_sort_key row =
     (let y = (case year_int row of YInt i \<Rightarrow> i | _ \<Rightarrow> - 1);
          ts = (case start_date_dt row of Some dt \<Rightarrow> timestamp dt | None \<Rightarrow> 0)
      in (y, ts))"

text \<open>
  \<^verbatim>\<open>sort_values(by=key, ascending=False)\<close>: pandas reverses the rows, sorts them in
  ascending order and reverses the result. The order it leaves among rows of equal keys
  depends on the sorting routine of numpy; here it is that of a stable sort.
\<close>

definition sort_values_desc :: "('a \<Rightarrow> 'k::linorder) \<Rightarrow> 'a list \<Rightarrow> 'a list" where
  "sort_values_desc key rows = rev (sort_key key (rev rows))"

text \<open>The columns of \<^verbatim>\<open>keep_cols\<close>.\<close>

definition keep_cols :: "pubrow \<Rightarrow> rawrow" where
  "keep_cols r =
     \<lparr>record_type = record_type r, year = year r, category = category r,
      subtype = subtype r, citation = citation r, doi = doi r,
      mnicsw_points = mnicsw_points r, impact_factor = impact_factor r,
      start_date = start_date r, end_date = end_date r, city = city r,
      country = country r, award = award r\<rparr>"

text \<open>The list \<open>out\<close> that \<^verbatim>\<open>export_publications_json\<close> writes.\<close>

definition export_records :: "dataframe \<Rightarrow> rawrow list" where
  "export_records df = map keep_cols (sort_values_desc export_sort_key df)"

section \<open>The sections of the CV\<close>

text \<open>
  A section of the CV is its title and the rows it lists, in their order; each row
  becomes one numbered paragraph, and a section without rows the paragraph \<open>No records.\<close>
\<close>

type_synonym cv_section = "string \<times> pubrow list"

text \<open>
  \<^verbatim>\<open>sort_values(by=["year_int"], ascending=False)\<close> on the years coerced again: the rows
  with a year in descending order, then the rows without one.
\<close>

definition sort_by_year_desc :: "(int option \<times> 'a) list \<Rightarrow> 'a list" where
  "sort_by_year_desc ps =
     map snd (sort_values_desc fst (List.map_filter (\<lambda>(y, r). map_option (\<lambda>i. (i, r)) y) ps))
     @ map snd (filter (\<lambda>(y, r). y = None) ps)"

text \<open>\<^verbatim>\<open>add_section(title, mask)\<close>, the same in both generators.\<close>

definition add_section :: "string \<Rightarrow> (pubrow \<Rightarrow> bool) \<Rightarrow> dataframe \<Rightarrow> exn + cv_section" where
  "add_section title msk df =
     (let sub = filter msk df
      in bind_exn (series_apply safe_int (map (\<lambda>r. PStr (year r)) sub)) (\<lambda>ys.
         Inr (title, sort_by_year_desc (zip ys sub))))"

text \<open>
  The key of a conference row: the timestamp of its start date or 0, then
  \<^verbatim>\<open>year_int or 0\<close>. (When only some of the years parse, pandas holds the column as
  floats and \<open>or 0\<close> keeps a NaN, which compares false with every number: the place of
  such a row among rows of the same date is then not fixed by the key.)
\<close>

definition conf_sort_key :: "date option \<times> int option \<times> 'a \<Rightarrow> int \<times> int" where
  "conf_sort_key k =
     (case k of (dt, y, r) \<Rightarrow>
        ((case dt of Some d \<Rightarrow> timestamp d | None \<Rightarrow> 0),
         (case y of Some i \<Rightarrow> i | None \<Rightarrow> 0)))"

definition sort_conferences :: "dataframe \<Rightarrow> exn + pubrow list" where
  "sort_conferences conf =
     bind_exn (series_apply safe_int (map (\<lambda>r. PStr (year r)) conf)) (\<lambda>ys.
     bind_exn (series_apply parse_date_ddmmyyyy (map (\<lambda>r. PStr (start_date r)) conf)) (\<lambda>ds.
     Inr (map (\<lambda>k. snd (snd k)) (sort_values_desc conf_sort_key (zip ds (zip ys conf))))))"

text \<open>The four sections of \<^verbatim>\<open>generate_cv_pdf\<close>; an empty conference table is not sorted.\<close>

definition pdf_sections :: "dataframe \<Rightarrow> exn + cv_section list" where
  "pdf_sections df =
     bind_exn (add_section ''Peer-reviewed publications (List A)''
                 (\<lambda>r. str_upper (category r) = ''A'') df) (\<lambda>sa.
     bind_exn (add_section ''Other publications (List B)''
                 (\<lambda>r. str_upper (category r) = ''B'') df) (\<lambda>sb.
     bind_exn (add_section ''Book chapters''
                 (\<lambda>r. record_type r = ''book_chapter''
                      \<or> str_contains (str_lower (category r)) ''book chapter'') df) (\<lambda>sc.
     (let conf = filter (\<lambda>r. record_type r = ''conference_contribution''
                             \<or> str_lower (category r) = ''conference'') df
      in if conf = [] then Inr [sa, sb, sc, (''Conference contributions'', [])]
         else bind_exn (sort_conferences conf) (\<lambda>rows.
              Inr [sa, sb, sc, (''Conference contributions'', rows)])))))"

text \<open>The four sections of \<^verbatim>\<open>generate_cv_docx\<close>; the conference table is sorted in any case.\<close>

definition docx_sections :: "dataframe \<Rightarrow> exn + cv_section list" where
  "docx_sections df =
     bind_exn (add_section ''Peer-reviewed publications (List A)''
                 (\<lambda>r. str_upper (category r) = ''A'') df) (\<lambda>sa.
     bind_exn (add_section ''Other publications (List B)''
                 (\<lambda>r. str_upper (category r) = ''B'') df) (\<lambda>sb.
     bind_exn (add_section ''Book chapters''
                 (\<lambda>r. record_type r = ''book_chapter''
                      \<or> str_contains (str_lower (category r)) ''book chapter'') df) (\<lambda>sc.
     (let conf = filter (\<lambda>r. record_type r = ''conference_contribution''
                             \<or> str_lower (category r) = ''conference'') df
      in bind_exn (sort_conferences conf) (\<lambda>rows.
         Inr [sa, sb, sc, (''Conference contributions'', rows)])))))"

text \<open>
  A generated CV: the profile and the summary, from which its heading and its table of
  totals are drawn, and its sections.
\<close>

record cv_document =
  cv_profile :: pydict
  cv_summary :: summary
  cv_sections :: "cv_section list"

section \<open>The build\<close>

text \<open>
  What a run finds on disk and in the interpreter. A JSON file is absent, present with a
  text that \<^verbatim>\<open>json.loads\<close> rejects, or present with an object. The table is absent,
  or present; read under an encoding it gives its rows, or the error of \<^verbatim>\<open>read_csv\<close>.
\<close>

datatype 'a json_file = Absent | Malformed | Content 'a

datatype encoding = UTF_8_SIG | UTF_8 | CP1250 | ISO_8859_2 | LATIN1

datatype path =
    PROFILE_JSON | METRICS_JSON | PUBLICATIONS_CSV
  | PUBLICATIONS_JSON | SUMMARY_JSON | CV_PDF | CV_DOCX

record world =
  profile_file :: "pydict json_file"
  metrics_file :: "pydict json_file"
  publications_file :: "(encoding \<Rightarrow> read_error + rawrow list) option"
  reportlab_installed :: bool
  docx_installed :: bool

text \<open>What a run does to the file system, in its order.\<close>

datatype artifact =
    PublicationsJson "rawrow list" | SummaryJson summary | CvDocument cv_document

datatype event = Exists path | Read path | MkdirAssets | Write path artifact

text \<open>A step of the build: the events it causes, and its result or the exception that ends it.\<close>

type_synonym 'a io = "event list \<times> (exn + 'a)"

definition io_bind :: "'a io \<Rightarrow> ('a \<Rightarrow> 'b io) \<Rightarrow> 'b io" where
  "io_bind m f =
     (case m of
        (tr, Inl e) \<Rightarrow> (tr, Inl e)
      | (tr, Inr a) \<Rightarrow> (case f a of (tr', r) \<Rightarrow> (tr @ tr', r)))"

definition load_profile :: "world \<Rightarrow> pydict io" where
  "load_profile w =
     (case profile_file w of
        Absent \<Rightarrow> ([Exists PROFILE_JSON], Inl FileNotFoundError)
      | Malformed \<Rightarrow> ([Exists PROFILE_JSON, Read PROFILE_JSON], Inl JSONDecodeError)
      | Content d \<Rightarrow> ([Exists PROFILE_JSON, Read PROFILE_JSON], Inr d))"

definition default_metrics :: pydict where
  "default_metrics =
     [(''source'', JStr ''Google Scholar''),
      (''author_id'', JStr []),
      (''profile_url'', JStr []),
      (''citations_all'', JStr []),
      (''citations_since_2016'', JStr []),
      (''h_index_all'', JStr []),
      (''h_index_since_2016'', JStr []),
      (''i10_index_all'', JStr []),
      (''i10_index_since_2016'', JStr []),
      (''last_updated'', JStr []),
      (''note'', JStr ''metrics.json not found'')]"

definition load_scholar_metrics :: "world \<Rightarrow> pydict io" where
  "load_scholar_metrics w =
     (case metrics_file w of
        Absent \<Rightarrow> ([Exists METRICS_JSON], Inr default_metrics)
      | Malformed \<Rightarrow> ([Exists METRICS_JSON, Read METRICS_JSON], Inl JSONDecodeError)
      | Content d \<Rightarrow> ([Exists METRICS_JSON, Read METRICS_JSON], Inr d))"

definition encodings_to_try :: "encoding list" where
  "encodings_to_try = [UTF_8_SIG, UTF_8, CP1250, ISO_8859_2, LATIN1]"

text \<open>
  The loop over the encodings: the first that reads the table ends it, an error is kept
  in \<open>last_err\<close> and the next encoding is tried; after the last one the error is raised.
\<close>

fun read_csv_loop ::
  "(encoding \<Rightarrow> read_error + rawrow list) \<Rightarrow> encoding list \<Rightarrow> read_error option
     \<Rightarrow> (rawrow list) io" where
  "read_csv_loop rd [] last_err =
     ([], case last_err of Some e \<Rightarrow> Inl (ReadError e) | None \<Rightarrow> Inl UnboundLocalError)"
| "read_csv_loop rd (enc # encs) last_err =
     (case rd enc of
        Inr t \<Rightarrow> ([Read PUBLICATIONS_CSV], Inr t)
      | Inl e \<Rightarrow>
          (case read_csv_loop rd encs (Some e) of
             (tr, r) \<Rightarrow> (Read PUBLICATIONS_CSV # tr, r)))"

definition load_publications_df :: "world \<Rightarrow> dataframe io" where
  "load_publications_df w =
     (case publications_file w of
        None \<Rightarrow> ([Exists PUBLICATIONS_CSV], Inl FileNotFoundError)
      | Some rd \<Rightarrow>
          io_bind ([Exists PUBLICATIONS_CSV], Inr ()) (\<lambda>_.
          io_bind (read_csv_loop rd encodings_to_try None) (\<lambda>raw.
          ([], coerce_columns raw))))"

definition export_publications_json :: "dataframe \<Rightarrow> unit io" where
  "export_publications_json df =
     ([Write PUBLICATIONS_JSON (PublicationsJson (export_records df))], Inr ())"

text \<open>
  \<^verbatim>\<open>generate_cv_pdf\<close>: the imports of reportlab come first; the document is written by
  \<^verbatim>\<open>doc.build\<close>, once its sections are there. (The fonts under \<^verbatim>\<open>assets/fonts\<close>, which
  change the typeface only, are left out.)
\<close>

definition generate_cv_pdf :: "world \<Rightarrow> pydict \<Rightarrow> summary \<Rightarrow> dataframe \<Rightarrow> unit io" where
  "generate_cv_pdf w profile summ df =
     (if \<not> reportlab_installed w then ([], Inl ImportError)
      else
        io_bind ([MkdirAssets], Inr ()) (\<lambda>_.
        io_bind ([], pdf_sections df) (\<lambda>secs.
        ([Write CV_PDF
            (CvDocument \<lparr>cv_profile = profile, cv_summary = summ, cv_sections = secs\<rparr>)],
         Inr ()))))"

text \<open>\<^verbatim>\<open>generate_cv_docx\<close>: without python-docx it returns at once and writes nothing.\<close>

definition generate_cv_docx :: "world \<Rightarrow> pydict \<Rightarrow> summary \<Rightarrow> dataframe \<Rightarrow> unit io" where
  "generate_cv_docx w profile summ df =
     (if \<not> docx_installed w then ([], Inr ())
      else
        io_bind ([MkdirAssets], Inr ()) (\<lambda>_.
        io_bind ([], docx_sections df) (\<lambda>secs.
        ([Write CV_DOCX
            (CvDocument \<lparr>cv_profile = profile, cv_summary = summ, cv_sections = secs\<rparr>)],
         Inr ()))))"

definition main :: "world \<Rightarrow> unit io" where
  "main w =
     io_bind (load_profile w) (\<lambda>profile.
     io_bind (load_scholar_metrics w) (\<lambda>metrics.
     io_bind (load_publications_df w) (\<lambda>df.
     io_bind (export_publications_json df) (\<lambda>_.
     (let summ = compute_summary df metrics
      in io_bind ([Write SUMMARY_JSON (SummaryJson summ)], Inr ()) (\<lambda>_.
         io_bind (generate_cv_pdf w profile summ df) (\<lambda>_.
         generate_cv_docx w profile summ df)))))))"

section \<open>The claims in the words of the specification\<close>





section \<open>Sample tables\<close>

definition empty_row :: rawrow where
  "empty_row =
     \<lparr>record_type = [], year = [], category = [], subtype = [], citation = [], doi = [],
      mnicsw_points = [], impact_factor = [], start_date = [], end_date = [], city = [],
      country = [], award = []\<rparr>"

text \<open>A table of one row whose points are the text \<open>nan\<close>.\<close>

definition nan_row :: rawrow where
  "nan_row = empty_row\<lparr>category := ''A'', year := ''2020'', mnicsw_points := ''nan''\<rparr>"

text \<open>A table of one row with a small impact factor.\<close>

definition small_if_row :: rawrow where
  "small_if_row = empty_row\<lparr>category := ''A'', year := ''2020'', impact_factor := ''0.0004''\<rparr>"

text \<open>A table with a paper of each list, a chapter and three conference contributions.\<close>

definition paper_a :: rawrow where
  "paper_a = empty_row\<lparr>record_type := ''article'', year := ''2021'', category := ''A'',
     citation := ''Paper A'', mnicsw_points := ''140'', impact_factor := ''3.5''\<rparr>"

definition paper_b :: rawrow where
  "paper_b = empty_row\<lparr>record_type := ''article'', year := ''2019'', category := ''b'',
     citation := ''Paper B'', mnicsw_points := ''20.5'', impact_factor := ''n/a''\<rparr>"

definition chapter_c :: rawrow where
  "chapter_c = empty_row\<lparr>record_type := ''book_chapter'', year := ''2020'',
     category := ''Book chapter'', citation := ''Chapter C''\<rparr>"

definition talk_d :: rawrow where
  "talk_d = empty_row\<lparr>record_type := ''conference_contribution'', year := ''2022'',
     subtype := ''Oral'', citation := ''Talk D'', start_date := ''02.01.2022''\<rparr>"

definition poster_e :: rawrow where
  "poster_e = empty_row\<lparr>year := ''2022'', category := ''Conference'',
     subtype := ''poster'', citation := ''Poster E'', start_date := ''2022-01-03''\<rparr>"

definition both_f :: rawrow where
  "both_f = empty_row\<lparr>record_type := ''conference_contribution'', year := ''2023'',
     subtype := ''oral/poster'', citation := ''Both F''\<rparr>"

definition sample_table :: "rawrow list" where
  "sample_table = [paper_a, paper_b, chapter_c, talk_d, poster_e, both_f]"

definition sample_df :: dataframe where
  "sample_df =
     [with_columns paper_a (YInt 2021) (Some (Fin 140)) (Some (Fin (7 / 2))) None None,
      with_columns paper_b (YInt 2019) (Some (Fin (41 / 2))) None None None,
      with_columns chapter_c (YInt 2020) None None None None,
      with_columns talk_d (YInt 2022) None None
        (Some \<lparr>d_year = 2022, d_month = 1, d_day = 2\<rparr>) None,
      with_columns poster_e (YInt 2022) None None
        (Some \<lparr>d_year = 2022, d_month = 1, d_day = 3\<rparr>) None,
      with_columns both_f (YInt 2023) None None None None]"

section \<open>Reading the trace of a run\<close>

text \<open>How often a run reads a file, and how often it writes one.\<close>

definition reads_of :: "path \<Rightarrow> event list \<Rightarrow> nat" where
  "reads_of p tr = count_list tr (Read p)"

fun is_write_to :: "path \<Rightarrow> event \<Rightarrow> bool" where
  "is_write_to p (Write q a) = (q = p)"
| "is_write_to p e = False"

definition writes_of :: "path \<Rightarrow> event list \<Rightarrow> nat" where
  "writes_of p tr = length (filter (is_write_to p) tr)"

text \<open>The encodings a run tries on a table: up to the first that reads it.\<close>

fun encodings_tried :: "(encoding \<Rightarrow> read_error + rawrow list) \<Rightarrow> encoding list \<Rightarrow> nat" where
  "encodings_tried rd [] = 0"
| "encodings_tried rd (enc # encs) =
     (case rd enc of Inr t \<Rightarrow> 1 | Inl e \<Rightarrow> Suc (encodings_tried rd encs))"

text \<open>The part of a run after the three loads.\<close>

definition outputs_trace :: "world \<Rightarrow> pydict \<Rightarrow> pydict \<Rightarrow> dataframe \<Rightarrow> event list" where
  "outputs_trace w profile metrics df =
     [Write PUBLICATIONS_JSON (PublicationsJson (export_records df)),
      Write SUMMARY_JSON (SummaryJson (compute_summary df metrics))]
     @ fst (generate_cv_pdf w profile (compute_summary df metrics) df)
     @ (if reportlab_installed w
        then fst (generate_cv_docx w profile (compute_summary df metrics) df) else [])"

text \<open>The value a coercion returns, \<open>None\<close> also where it would raise.\<close>

definition result_of :: "exn + 'a option \<Rightarrow> 'a option" where
  "result_of r = (case r of Inl e \<Rightarrow> None | Inr v \<Rightarrow> v)"

section \<open>Sample runs\<close>

definition sample_profile :: pydict where
  "sample_profile = [(''name'', JStr ''D. T.''), (''role'', JStr ''Researcher'')]"

text \<open>A table that every encoding reads, and one that is read as CP1250 and not as UTF-8.\<close>

definition utf8_reader :: "encoding \<Rightarrow> read_error + rawrow list" where
  "utf8_reader enc = Inr sample_table"

definition cp1250_reader :: "encoding \<Rightarrow> read_error + rawrow list" where
  "cp1250_reader enc =
     (if enc = UTF_8_SIG \<or> enc = UTF_8 then Inl UnicodeDecodeError else Inr sample_table)"

text \<open>A run with the profile and the table, without \<^verbatim>\<open>metrics.json\<close>.\<close>

definition complete_world :: world where
  "complete_world =
     \<lparr>profile_file = Content sample_profile, metrics_file = Absent,
      publications_file = Some utf8_reader, reportlab_installed = True,
      docx_installed = True\<rparr>"

definition cp1250_world :: world where
  "cp1250_world = complete_world\<lparr>publications_file := Some cp1250_reader\<rparr>"

text \<open>A run without the table, and one without the table whose profile is no JSON.\<close>

definition no_table_world :: world where
  "no_table_world = complete_world\<lparr>publications_file := None\<rparr>"

definition broken_profile_world :: world where
  "broken_profile_world = no_table_world\<lparr>profile_file := Malformed\<rparr>"

text \<open>A table with a row of no section of the CV and a row of two sections.\<close>

definition article_c :: rawrow where
  "article_c = empty_row\<lparr>record_type := ''article'', year := ''2020'', category := ''C'',
     citation := ''Article C''\<rparr>"

definition chapter_a :: rawrow where
  "chapter_a = empty_row\<lparr>record_type := ''book_chapter'', year := ''2021'', category := ''A'',
     citation := ''Chapter A''\<rparr>"

text \<open>A paper, an earlier talk with its date, and a paper whose year is not a number.\<close>

definition paper_2021 :: rawrow where
  "paper_2021 = empty_row\<lparr>record_type := ''article'', year := ''2021'', category := ''A'',
     citation := ''Paper 2021''\<rparr>"

definition talk_2019 :: rawrow where
  "talk_2019 = empty_row\<lparr>record_type := ''conference_contribution'', year := ''2019'',
     category := ''Conference'', citation := ''Talk 2019'', start_date := ''05.06.2019''\<rparr>"

definition in_press :: rawrow where
  "in_press = empty_row\<lparr>record_type := ''article'', year := ''in press'', category := ''A'',
     citation := ''Paper in press''\<rparr>"

section \<open>Evaluation\<close>

lemmas str_eval =
  str_lower_def str_upper_def lower_char_def upper_char_def ascii_upper_letters_def
  ascii_lower_letters_def strip_with_def str_strip_def is_c_space_def is_str_space_def
  is_digit_def digit_val_def digits_val_def

lemmas float_eval =
  float_of_str_def parse_decimal_def signed_def scale10_def trunc_rat_def
  safe_float_def safe_int_def except_none_def

lemmas date_eval =
  parse_date_ddmmyyyy_def strptime_def match_d_def match_m_def match_Y_def match_lit_def
  one_char_def two_chars_def is_nonzero_digit_def group_val_def List.bind_def
  days_in_month_def is_leap_def Let_def

lemmas row_eval =
  empty_row_def nan_row_def small_if_row_def paper_a_def paper_b_def chapter_c_def
  talk_d_def poster_e_def both_f_def

lemma sample_years:
  "safe_int (PStr ''2019'') = Inr (Some 2019)" "safe_int (PStr ''2020'') = Inr (Some 2020)"
  "safe_int (PStr ''2021'') = Inr (Some 2021)" "safe_int (PStr ''2022'') = Inr (Some 2022)"
  "safe_int (PStr ''2023'') = Inr (Some 2023)" "safe_int (PStr []) = Inr None"
  by (simp_all add: str_eval float_eval)

lemma sample_floats:
  "safe_float (PStr ''140'') = Inr (Some (Fin 140))"
  "safe_float (PStr ''20.5'') = Inr (Some (Fin (41 / 2)))"
  "safe_float (PStr ''3.5'') = Inr (Some (Fin (7 / 2)))"
  "safe_float (PStr ''n/a'') = Inr None"
  "safe_float (PStr ''nan'') = Inr (Some NaN)"
  "safe_float (PStr ''0.0004'') = Inr (Some (Fin (1 / 2500)))"
  "safe_float (PStr []) = Inr None"
  by (simp_all add: str_eval float_eval)

lemma sample_dates:
  "parse_date_ddmmyyyy (PStr ''02.01.2022'')
     = Inr (Some \<lparr>d_year = 2022, d_month = 1, d_day = 2\<rparr>)"
  "parse_date_ddmmyyyy (PStr ''2022-01-03'')
     = Inr (Some \<lparr>d_year = 2022, d_month = 1, d_day = 3\<rparr>)"
  "parse_date_ddmmyyyy (PStr []) = Inr None"
  by (simp_all add: str_eval date_eval)

lemma coerce_sample_table: "coerce_columns sample_table = Inr sample_df"
  by (simp add: coerce_columns_def sample_table_def sample_df_def bind_exn_def row_eval
      sample_years sample_floats sample_dates infer_year_column_def)



lemmas mask_eval =
  is_list_a_def is_list_b_def is_chapter_def is_conf_def conf_oral_def conf_poster_def
  subtype_has_def with_columns_def

lemma sample_counts:
  "count_where is_chapter sample_df = 1"
  "count_where is_list_b sample_df = 2"
  "count_where is_conf sample_df = 3"
  "count_where conf_oral sample_df = 2"
  "count_where conf_poster sample_df = 2"
  "count_where (\<lambda>r. is_conf r \<and> \<not> (conf_oral r \<or> conf_poster r)) sample_df = 0"
  "count_where (\<lambda>r. is_conf r \<and> (subtype_has ''oral'' r \<or> subtype_has ''poster'' r))
     sample_df = 3"
  by (simp_all add: count_where_def sample_df_def mask_eval row_eval str_eval)


section \<open>The coercions\<close>

lemma except_none_Inr: "\<exists>r. except_none b = Inr r"
  by (cases b) (simp_all add: except_none_def)

lemma try_formats_Inr: "\<exists>r. try_formats s fmts = Inr r"
  by (induction fmts) (auto split: sum.splits)

lemma safe_int_total: "\<exists>r. safe_int x = Inr r"
  unfolding safe_int_def by (rule except_none_Inr)

lemma safe_float_total: "\<exists>r. safe_float x = Inr r"
  unfolding safe_float_def by (rule except_none_Inr)

lemma parse_date_total: "\<exists>r. parse_date_ddmmyyyy x = Inr r"
  using try_formats_Inr
  by (cases x) (auto simp: parse_date_ddmmyyyy_def Let_def simp del: try_formats.simps)

lemma series_apply_total:
  assumes "\<And>x. \<exists>r. f x = Inr r"
  shows "series_apply f xs = Inr (map (\<lambda>x. result_of (f x)) xs)"
proof (induction xs)
  case Nil
  show ?case by simp
next
  case (Cons x xs)
  from assms obtain y where "f x = Inr y" by blast
  with Cons show ?case by (simp add: bind_exn_def result_of_def)
qed

lemmas series_apply_safe_int = series_apply_total [of safe_int, OF safe_int_total]
lemmas series_apply_safe_float = series_apply_total [of safe_float, OF safe_float_total]
lemmas series_apply_parse_date = series_apply_total [of parse_date_ddmmyyyy, OF parse_date_total]

lemma coerce_columns_eq:
  "coerce_columns raw =
     Inr (assemble raw
            (infer_year_column (map (\<lambda>r. result_of (safe_int (PStr (year r)))) raw))
            (map (\<lambda>r. result_of (safe_float (PStr (mnicsw_points r)))) raw)
            (map (\<lambda>r. result_of (safe_float (PStr (impact_factor r)))) raw)
            (map (\<lambda>r. result_of (parse_date_ddmmyyyy (PStr (start_date r)))) raw)
            (map (\<lambda>r. result_of (parse_date_ddmmyyyy (PStr (end_date r)))) raw))"
  by (simp add: coerce_columns_def bind_exn_def series_apply_safe_int series_apply_safe_float
      series_apply_parse_date o_def)

lemma length_infer_year_column: "length (infer_year_column ys) = length ys"
  by (simp add: infer_year_column_def)

lemma assemble_columns:
  assumes "length ys = length rs" "length ps = length rs" "length fs = length rs"
    "length ss = length rs" "length es = length rs"
  shows "length (assemble rs ys ps fs ss es) = length rs"
    and "map mnicsw_points_num (assemble rs ys ps fs ss es) = ps"
    and "map impact_factor_num (assemble rs ys ps fs ss es) = fs"
    and "map keep_cols (assemble rs ys ps fs ss es) = rs"
  using assms
proof (induction rs arbitrary: ys ps fs ss es)
  case Nil
  {
    case 1 show ?case by simp
  next
    case 2 then show ?case by simp
  next
    case 3 then show ?case by simp
  next
    case 4 show ?case by simp
  }
next
  case (Cons r rs)
  {
    case 1
    then obtain y ys' p ps' f fs' s ss' e es' where
      "ys = y # ys'" "ps = p # ps'" "fs = f # fs'" "ss = s # ss'" "es = e # es'"
      by (metis length_Suc_conv)
    with 1 Cons.IH(1) show ?case by simp
  next
    case 2
    then obtain y ys' p ps' f fs' s ss' e es' where
      "ys = y # ys'" "ps = p # ps'" "fs = f # fs'" "ss = s # ss'" "es = e # es'"
      by (metis length_Suc_conv)
    with 2 Cons.IH(2) show ?case by (simp add: with_columns_def)
  next
    case 3
    then obtain y ys' p ps' f fs' s ss' e es' where
      "ys = y # ys'" "ps = p # ps'" "fs = f # fs'" "ss = s # ss'" "es = e # es'"
      by (metis length_Suc_conv)
    with 3 Cons.IH(3) show ?case by (simp add: with_columns_def)
  next
    case 4
    then obtain y ys' p ps' f fs' s ss' e es' where
      "ys = y # ys'" "ps = p # ps'" "fs = f # fs'" "ss = s # ss'" "es = e # es'"
      by (metis length_Suc_conv)
    with 4 Cons.IH(4) show ?case by (simp add: with_columns_def keep_cols_def)
  }
qed

lemma coerce_columns_total: "\<exists>df. coerce_columns raw = Inr df \<and> length df = length raw"
  by (simp add: coerce_columns_eq assemble_columns length_infer_year_column)

text \<open>
  C6. The three coercions return a value or \<open>None\<close> for every cell and never raise, so
  the coercion of the columns of a table never fails, whatever the cells hold.
\<close>

theorem coercions_never_raise:
  "(\<forall>x. \<exists>r. safe_int x = Inr r) \<and> (\<forall>x. \<exists>r. safe_float x = Inr r)
   \<and> (\<forall>x. \<exists>r. parse_date_ddmmyyyy x = Inr r)
   \<and> (\<forall>raw. \<exists>df. coerce_columns raw = Inr df \<and> length df = length raw)"
  using safe_int_total safe_float_total parse_date_total coerce_columns_total by blast

section \<open>The totals of the summary\<close>

lemma count_where_Nil: "count_where P [] = 0"
  by (simp add: count_where_def)

lemma count_where_Cons: "count_where P (r # df) = (if P r then 1 else 0) + count_where P df"
  by (simp add: count_where_def)

lemma count_where_mono: "(\<And>r. P r \<Longrightarrow> Q r) \<Longrightarrow> count_where P df \<le> count_where Q df"
  by (induction df) (auto simp: count_where_Nil count_where_Cons)

lemma count_where_nonneg: "0 \<le> count_where P df"
  by (simp add: count_where_def)

lemma count_where_zero_iff: "count_where P df = 0 \<longleftrightarrow> \<not> (\<exists>r \<in> set df. P r)"
  by (auto simp: count_where_def filter_empty_conv)

lemma totals_simps:
  "book_chapters (totals (compute_summary df m)) = count_where is_chapter df"
  "publications_list_b (totals (compute_summary df m)) = count_where is_list_b df"
  "conference_contributions_total (totals (compute_summary df m)) = count_where is_conf df"
  "conference_oral_presentations (totals (compute_summary df m)) = count_where conf_oral df"
  "conference_posters (totals (compute_summary df m)) = count_where conf_poster df"
  "conference_type_unspecified (totals (compute_summary df m)) =
     count_where (\<lambda>r. is_conf r \<and> \<not> (conf_oral r \<or> conf_poster r)) df"
  "totals_mnicsw_points (totals (compute_summary df m)) =
     int_if_integer (series_sum (dropna (map mnicsw_points_num df)))"
  "sum_impact_factor (totals (compute_summary df m)) =
     round3 (series_sum (dropna (map impact_factor_num df)))"
  by (simp_all add: compute_summary_def Let_def)

text \<open>
  C9. The count of book chapters is at most the count of List B: the rows of the chapter
  mask are rows of the List B mask, which is the chapter mask or category \<open>B\<close>.
\<close>

theorem book_chapters_le_list_b:
  "book_chapters (totals (compute_summary df metrics))
     \<le> publications_list_b (totals (compute_summary df metrics))
   \<and> set (filter is_chapter df) \<subseteq> set (filter is_list_b df)"
proof
  show "book_chapters (totals (compute_summary df metrics))
     \<le> publications_list_b (totals (compute_summary df metrics))"
    unfolding totals_simps by (rule count_where_mono) (simp add: is_list_b_def)
  show "set (filter is_chapter df) \<subseteq> set (filter is_list_b df)"
    by (auto simp: is_list_b_def)
qed

theorem book_chapters_le_list_b_witness:
  "book_chapters (totals (compute_summary sample_df [])) = 1
   \<and> publications_list_b (totals (compute_summary sample_df [])) = 2
   \<and> book_chapters (totals (compute_summary sample_df []))
       \<le> publications_list_b (totals (compute_summary sample_df []))"
proof -
  have "book_chapters (totals (compute_summary sample_df [])) = 1"
    and "publications_list_b (totals (compute_summary sample_df [])) = 2"
    by (simp_all only: totals_simps sample_counts)
  moreover have "book_chapters (totals (compute_summary sample_df []))
       \<le> publications_list_b (totals (compute_summary sample_df []))"
    using book_chapters_le_list_b [of sample_df "[]"] by (rule conjunct1)
  ultimately show ?thesis by blast
qed

lemma conf_counts:
  "count_where (\<lambda>r. is_conf r \<and> \<not> (conf_oral r \<or> conf_poster r)) df
     = count_where is_conf df
       - count_where (\<lambda>r. is_conf r \<and> (subtype_has ''oral'' r \<or> subtype_has ''poster'' r)) df"
  by (induction df) (auto simp: count_where_Nil count_where_Cons conf_oral_def conf_poster_def)

lemma conf_sum:
  "count_where conf_oral df + count_where conf_poster df
     + count_where (\<lambda>r. is_conf r \<and> \<not> (conf_oral r \<or> conf_poster r)) df
   = count_where is_conf df
     + count_where (\<lambda>r. is_conf r \<and> subtype_has ''oral'' r \<and> subtype_has ''poster'' r) df"
  by (induction df) (auto simp: count_where_Nil count_where_Cons conf_oral_def conf_poster_def)

text \<open>
  C10. The conference contributions of unspecified type are those whose subtype contains
  neither \<open>oral\<close> nor \<open>poster\<close>; the three counts of the breakdown add up to at least the
  count of conference contributions, and to exactly that count when no conference row has
  both words in its subtype.
\<close>

theorem conference_breakdown:
  "conference_type_unspecified (totals (compute_summary df metrics))
     = conference_contributions_total (totals (compute_summary df metrics))
       - count_where (\<lambda>r. is_conf r \<and> (subtype_has ''oral'' r \<or> subtype_has ''poster'' r)) df
   \<and> conference_contributions_total (totals (compute_summary df metrics))
       \<le> conference_oral_presentations (totals (compute_summary df metrics))
         + conference_posters (totals (compute_summary df metrics))
         + conference_type_unspecified (totals (compute_summary df metrics))
   \<and> ((conference_oral_presentations (totals (compute_summary df metrics))
         + conference_posters (totals (compute_summary df metrics))
         + conference_type_unspecified (totals (compute_summary df metrics))
        = conference_contributions_total (totals (compute_summary df metrics)))
       = (\<not> (\<exists>r \<in> set df. is_conf r \<and> subtype_has ''oral'' r \<and> subtype_has ''poster'' r)))"
  unfolding totals_simps
  using conf_counts [of df] conf_sum [of df]
    count_where_nonneg [of "\<lambda>r. is_conf r \<and> subtype_has ''oral'' r \<and> subtype_has ''poster'' r" df]
    count_where_zero_iff [of "\<lambda>r. is_conf r \<and> subtype_has ''oral'' r \<and> subtype_has ''poster'' r" df]
  by auto

theorem conference_breakdown_witness:
  "conference_contributions_total (totals (compute_summary sample_df [])) = 3
   \<and> conference_oral_presentations (totals (compute_summary sample_df [])) = 2
   \<and> conference_posters (totals (compute_summary sample_df [])) = 2
   \<and> conference_type_unspecified (totals (compute_summary sample_df [])) = 0
   \<and> conference_contributions_total (totals (compute_summary sample_df []))
       \<le> conference_oral_presentations (totals (compute_summary sample_df []))
         + conference_posters (totals (compute_summary sample_df []))
         + conference_type_unspecified (totals (compute_summary sample_df []))"
proof -
  have "conference_contributions_total (totals (compute_summary sample_df [])) = 3"
    and "conference_oral_presentations (totals (compute_summary sample_df [])) = 2"
    and "conference_posters (totals (compute_summary sample_df [])) = 2"
    and "conference_type_unspecified (totals (compute_summary sample_df [])) = 0"
    by (simp_all only: totals_simps sample_counts)
  moreover have "conference_contributions_total (totals (compute_summary sample_df []))
       \<le> conference_oral_presentations (totals (compute_summary sample_df []))
         + conference_posters (totals (compute_summary sample_df []))
         + conference_type_unspecified (totals (compute_summary sample_df []))"
    using conference_breakdown [of sample_df "[]"] by blast
  ultimately show ?thesis by blast
qed









section \<open>The loads and the generators\<close>

lemma read_csv_loop_Cons:
  "read_csv_loop rd (enc # encs) lerr =
     (case rd enc of
        Inr t \<Rightarrow> ([Read PUBLICATIONS_CSV], Inr t)
      | Inl e \<Rightarrow> (Read PUBLICATIONS_CSV # fst (read_csv_loop rd encs (Some e)),
                  snd (read_csv_loop rd encs (Some e))))"
  by (simp split: sum.splits prod.splits)

lemma read_csv_loop_trace:
  "fst (read_csv_loop rd encs lerr) = replicate (encodings_tried rd encs) (Read PUBLICATIONS_CSV)"
  by (induction encs arbitrary: lerr)
    (simp_all add: read_csv_loop_Cons del: read_csv_loop.simps(2) split: sum.splits)

lemma encodings_tried_le: "encodings_tried rd encs \<le> length encs"
  by (induction encs) (auto split: sum.splits)

lemma read_csv_loop_result:
  "snd (read_csv_loop rd encs lerr) \<noteq> Inl FileNotFoundError"
  by (induction encs arbitrary: lerr)
    (simp_all add: read_csv_loop_Cons del: read_csv_loop.simps(2) split: sum.splits option.splits)


lemma add_section_eq:
  "add_section title msk df =
     Inr (title, sort_by_year_desc
       (zip (map (\<lambda>r. result_of (safe_int (PStr (year r)))) (filter msk df)) (filter msk df)))"
  by (simp add: add_section_def Let_def series_apply_safe_int bind_exn_def o_def)

lemma sort_conferences_eq:
  "sort_conferences conf =
     Inr (map (\<lambda>k. snd (snd k)) (sort_values_desc conf_sort_key
       (zip (map (\<lambda>r. result_of (parse_date_ddmmyyyy (PStr (start_date r)))) conf)
         (zip (map (\<lambda>r. result_of (safe_int (PStr (year r)))) conf) conf))))"
  by (simp add: sort_conferences_def series_apply_safe_int series_apply_parse_date bind_exn_def o_def)

lemma sort_conferences_Nil: "sort_conferences [] = Inr []"
  by (simp add: sort_conferences_eq sort_values_desc_def)

lemma docx_sections_eq:
  "docx_sections df =
     Inr [(''Peer-reviewed publications (List A)'', sort_by_year_desc
            (zip (map (\<lambda>r. result_of (safe_int (PStr (year r)))) (filter is_list_a df))
               (filter is_list_a df))),
          (''Other publications (List B)'', sort_by_year_desc
            (zip (map (\<lambda>r. result_of (safe_int (PStr (year r))))
                    (filter (\<lambda>r. str_upper (category r) = ''B'') df))
               (filter (\<lambda>r. str_upper (category r) = ''B'') df))),
          (''Book chapters'', sort_by_year_desc
            (zip (map (\<lambda>r. result_of (safe_int (PStr (year r)))) (filter is_chapter df))
               (filter is_chapter df))),
          (''Conference contributions'',
            map (\<lambda>k. snd (snd k)) (sort_values_desc conf_sort_key
              (zip (map (\<lambda>r. result_of (parse_date_ddmmyyyy (PStr (start_date r))))
                      (filter is_conf df))
                 (zip (map (\<lambda>r. result_of (safe_int (PStr (year r)))) (filter is_conf df))
                    (filter is_conf df)))))]"
  unfolding docx_sections_def add_section_eq sort_conferences_eq Let_def bind_exn_def
  by (simp add: is_list_a_def is_chapter_def is_conf_def cong: filter_cong)

lemma pdf_sections_eq_docx: "pdf_sections df = docx_sections df"
proof (cases "filter (\<lambda>r. record_type r = ''conference_contribution''
                             \<or> str_lower (category r) = ''conference'') df = []")
  case True
  then show ?thesis
    unfolding pdf_sections_def docx_sections_def Let_def
    by (simp add: sort_conferences_Nil bind_exn_def)
next
  case False
  then show ?thesis
    unfolding pdf_sections_def docx_sections_def Let_def
    by simp
qed

lemma generate_cv_pdf_eq:
  "generate_cv_pdf w profile summ df =
     (if reportlab_installed w
      then ([MkdirAssets, Write CV_PDF (CvDocument \<lparr>cv_profile = profile, cv_summary = summ,
              cv_sections = projr (pdf_sections df)\<rparr>)], Inr ())
      else ([], Inl ImportError))"
  by (simp add: generate_cv_pdf_def io_bind_def pdf_sections_eq_docx docx_sections_eq)

lemma generate_cv_docx_eq:
  "generate_cv_docx w profile summ df =
     (if docx_installed w
      then ([MkdirAssets, Write CV_DOCX (CvDocument \<lparr>cv_profile = profile, cv_summary = summ,
              cv_sections = projr (docx_sections df)\<rparr>)], Inr ())
      else ([], Inr ()))"
  by (simp add: generate_cv_docx_def io_bind_def docx_sections_eq)

lemma main_after_loads:
  assumes "profile_file w = Content profile"
    and "load_scholar_metrics w = (mtr, Inr metrics)"
    and "publications_file w = Some rd"
    and "read_csv_loop rd encodings_to_try None = (ctr, Inr raw)"
    and "coerce_columns raw = Inr df"
  shows "main w =
     ([Exists PROFILE_JSON, Read PROFILE_JSON] @ mtr @ [Exists PUBLICATIONS_CSV] @ ctr
        @ outputs_trace w profile metrics df,
      if reportlab_installed w then Inr () else Inl ImportError)"
  using assms
  by (simp add: main_def load_profile_def load_publications_df_def io_bind_def Let_def
      export_publications_json_def generate_cv_pdf_eq generate_cv_docx_eq outputs_trace_def)
section \<open>The runs of the build\<close>

lemma load_scholar_metrics_cases:
  "metrics_file w \<noteq> Malformed \<Longrightarrow>
   \<exists>metrics. load_scholar_metrics w = ([Exists METRICS_JSON], Inr metrics)
     \<or> load_scholar_metrics w = ([Exists METRICS_JSON, Read METRICS_JSON], Inr metrics)"
  by (cases "metrics_file w") (simp_all add: load_scholar_metrics_def)

lemma main_profile_absent:
  "profile_file w = Absent \<Longrightarrow> main w = ([Exists PROFILE_JSON], Inl FileNotFoundError)"
  by (simp add: main_def load_profile_def io_bind_def)

lemma main_profile_malformed:
  "profile_file w = Malformed \<Longrightarrow>
   main w = ([Exists PROFILE_JSON, Read PROFILE_JSON], Inl JSONDecodeError)"
  by (simp add: main_def load_profile_def io_bind_def)

lemma main_metrics_malformed:
  "profile_file w = Content profile \<Longrightarrow> metrics_file w = Malformed \<Longrightarrow>
   main w = ([Exists PROFILE_JSON, Read PROFILE_JSON, Exists METRICS_JSON, Read METRICS_JSON],
             Inl JSONDecodeError)"
  by (simp add: main_def load_profile_def load_scholar_metrics_def io_bind_def)

lemma main_table_absent:
  "profile_file w = Content profile \<Longrightarrow> load_scholar_metrics w = (mtr, Inr metrics) \<Longrightarrow>
   publications_file w = None \<Longrightarrow>
   main w = ([Exists PROFILE_JSON, Read PROFILE_JSON] @ mtr @ [Exists PUBLICATIONS_CSV],
             Inl FileNotFoundError)"
  by (simp add: main_def load_profile_def load_publications_df_def io_bind_def)

lemma main_table_unreadable:
  "profile_file w = Content profile \<Longrightarrow> load_scholar_metrics w = (mtr, Inr metrics) \<Longrightarrow>
   publications_file w = Some rd \<Longrightarrow> read_csv_loop rd encodings_to_try None = (ctr, Inl e) \<Longrightarrow>
   main w = ([Exists PROFILE_JSON, Read PROFILE_JSON] @ mtr @ [Exists PUBLICATIONS_CSV] @ ctr,
             Inl e)"
  by (simp add: main_def load_profile_def load_publications_df_def io_bind_def)

text \<open>The ways a run can go, each with its trace and its result.\<close>

lemma main_cases [case_names profile_absent profile_malformed metrics_malformed table_absent
    table_unreadable loaded]:
  obtains
    "profile_file w = Absent" "main w = ([Exists PROFILE_JSON], Inl FileNotFoundError)"
  | "profile_file w = Malformed"
    "main w = ([Exists PROFILE_JSON, Read PROFILE_JSON], Inl JSONDecodeError)"
  | profile where "profile_file w = Content profile" "metrics_file w = Malformed"
    "main w = ([Exists PROFILE_JSON, Read PROFILE_JSON, Exists METRICS_JSON, Read METRICS_JSON],
               Inl JSONDecodeError)"
  | profile mtr metrics where "profile_file w = Content profile"
    "metrics_file w \<noteq> Malformed" "load_scholar_metrics w = (mtr, Inr metrics)"
    "mtr = [Exists METRICS_JSON] \<or> mtr = [Exists METRICS_JSON, Read METRICS_JSON]"
    "publications_file w = None"
    "main w = ([Exists PROFILE_JSON, Read PROFILE_JSON] @ mtr @ [Exists PUBLICATIONS_CSV],
               Inl FileNotFoundError)"
  | profile mtr metrics rd e where "profile_file w = Content profile"
    "metrics_file w \<noteq> Malformed" "load_scholar_metrics w = (mtr, Inr metrics)"
    "mtr = [Exists METRICS_JSON] \<or> mtr = [Exists METRICS_JSON, Read METRICS_JSON]"
    "publications_file w = Some rd" "e \<noteq> FileNotFoundError"
    "main w = ([Exists PROFILE_JSON, Read PROFILE_JSON] @ mtr @ [Exists PUBLICATIONS_CSV]
                 @ replicate (encodings_tried rd encodings_to_try) (Read PUBLICATIONS_CSV),
               Inl e)"
  | profile mtr metrics rd raw df where "profile_file w = Content profile"
    "metrics_file w \<noteq> Malformed" "load_scholar_metrics w = (mtr, Inr metrics)"
    "mtr = [Exists METRICS_JSON] \<or> mtr = [Exists METRICS_JSON, Read METRICS_JSON]"
    "publications_file w = Some rd" "coerce_columns raw = Inr df"
    "snd (read_csv_loop rd encodings_to_try None) = Inr raw"
    "main w = ([Exists PROFILE_JSON, Read PROFILE_JSON] @ mtr @ [Exists PUBLICATIONS_CSV]
                 @ replicate (encodings_tried rd encodings_to_try) (Read PUBLICATIONS_CSV)
                 @ outputs_trace w profile metrics df,
               if reportlab_installed w then Inr () else Inl ImportError)"
proof (cases "profile_file w")
  case Absent
  then show ?thesis using that(1) main_profile_absent by blast
next
  case Malformed
  then show ?thesis using that(2) main_profile_malformed by blast
next
  case (Content profile)
  show ?thesis
  proof (cases "metrics_file w = Malformed")
    case True
    with Content show ?thesis using that(3) main_metrics_malformed by blast
  next
    case False
    from load_scholar_metrics_cases [OF False] obtain mtr metrics where
      m: "load_scholar_metrics w = (mtr, Inr metrics)"
        "mtr = [Exists METRICS_JSON] \<or> mtr = [Exists METRICS_JSON, Read METRICS_JSON]"
      by blast
    show ?thesis
    proof (cases "publications_file w")
      case None
      with Content False m show ?thesis
        using that(4) main_table_absent by blast
    next
      case (Some rd)
      obtain ctr r where loop: "read_csv_loop rd encodings_to_try None = (ctr, r)"
        by (cases "read_csv_loop rd encodings_to_try None") blast
      then have ctr: "ctr = replicate (encodings_tried rd encodings_to_try) (Read PUBLICATIONS_CSV)"
        using read_csv_loop_trace [of rd encodings_to_try None] by simp
      show ?thesis
      proof (cases r)
        case (Inl e)
        with loop have "e \<noteq> FileNotFoundError"
          using read_csv_loop_result [of rd encodings_to_try None] by auto
        moreover from main_table_unreadable [OF Content m(1) Some] loop Inl ctr
        have "main w = ([Exists PROFILE_JSON, Read PROFILE_JSON] @ mtr @ [Exists PUBLICATIONS_CSV]
                 @ replicate (encodings_tried rd encodings_to_try) (Read PUBLICATIONS_CSV),
               Inl e)"
          by simp
        ultimately show ?thesis
          using that(5) Content False m Some by blast
      next
        case (Inr raw)
        obtain df where df: "coerce_columns raw = Inr df"
          using coerce_columns_total by blast
        from loop Inr have "snd (read_csv_loop rd encodings_to_try None) = Inr raw"
          by simp
        moreover from main_after_loads [OF Content m(1) Some _ df] loop Inr ctr
        have "main w = ([Exists PROFILE_JSON, Read PROFILE_JSON] @ mtr @ [Exists PUBLICATIONS_CSV]
                 @ replicate (encodings_tried rd encodings_to_try) (Read PUBLICATIONS_CSV)
                 @ outputs_trace w profile metrics df,
               if reportlab_installed w then Inr () else Inl ImportError)"
          by simp
        ultimately show ?thesis
          using that(6) Content False m Some df by blast
      qed
    qed
  qed
qed

lemma reads_of_simps_aux:
  "reads_of p [] = 0"
  "reads_of p (Exists q # tr) = reads_of p tr"
  "reads_of p (Read q # tr) = (if q = p then Suc (reads_of p tr) else reads_of p tr)"
  "reads_of p (MkdirAssets # tr) = reads_of p tr"
  "reads_of p (Write q a # tr) = reads_of p tr"
  "reads_of p (tr @ tr') = reads_of p tr + reads_of p tr'"
  by (simp_all add: reads_of_def)

lemma reads_of_replicate: "reads_of p (replicate n (Read q)) = (if q = p then n else 0)"
  by (induction n) (auto simp: reads_of_def)

lemmas reads_of_simps = reads_of_simps_aux reads_of_replicate

lemma writes_of_simps:
  "writes_of p [] = 0"
  "writes_of p (Exists q # tr) = writes_of p tr"
  "writes_of p (Read q # tr) = writes_of p tr"
  "writes_of p (MkdirAssets # tr) = writes_of p tr"
  "writes_of p (Write q a # tr) = (if q = p then Suc (writes_of p tr) else writes_of p tr)"
  "writes_of p (tr @ tr') = writes_of p tr + writes_of p tr'"
  "writes_of p (replicate n (Read q)) = 0"
  by (simp_all add: writes_of_def)

lemma outputs_trace_counts:
  "reads_of p (outputs_trace w profile metrics df) = 0"
  "writes_of p (outputs_trace w profile metrics df) \<le> 1"
  "writes_of PROFILE_JSON (outputs_trace w profile metrics df) = 0"
  "writes_of METRICS_JSON (outputs_trace w profile metrics df) = 0"
  "writes_of PUBLICATIONS_CSV (outputs_trace w profile metrics df) = 0"
  by (simp_all add: outputs_trace_def generate_cv_pdf_eq generate_cv_docx_eq reads_of_simps
      writes_of_simps)


lemma length_encodings_to_try: "length encodings_to_try = 5"
  by (simp add: encodings_to_try_def)

text \<open>
  C7, as the code has it. A run reads \<^verbatim>\<open>profile.json\<close> and \<^verbatim>\<open>metrics.json\<close>
  at most once each, and the table once for every encoding it tries, up to the first that
  reads it: at most five times. It writes each of its four outputs at most once, and never
  writes one of its three inputs.
\<close>

theorem reads_and_writes_per_run:
  "reads_of PROFILE_JSON (fst (main w)) \<le> 1
   \<and> reads_of METRICS_JSON (fst (main w)) \<le> 1
   \<and> reads_of PUBLICATIONS_CSV (fst (main w))
       \<le> (case publications_file w of None \<Rightarrow> 0
           | Some rd \<Rightarrow> encodings_tried rd encodings_to_try)
   \<and> (case publications_file w of None \<Rightarrow> 0
       | Some rd \<Rightarrow> encodings_tried rd encodings_to_try) \<le> 5
   \<and> writes_of PUBLICATIONS_JSON (fst (main w)) \<le> 1
   \<and> writes_of SUMMARY_JSON (fst (main w)) \<le> 1
   \<and> writes_of CV_PDF (fst (main w)) \<le> 1
   \<and> writes_of CV_DOCX (fst (main w)) \<le> 1
   \<and> writes_of PROFILE_JSON (fst (main w)) = 0
   \<and> writes_of METRICS_JSON (fst (main w)) = 0
   \<and> writes_of PUBLICATIONS_CSV (fst (main w)) = 0"
proof -
  have bound: "(case publications_file w of None \<Rightarrow> 0
       | Some rd \<Rightarrow> encodings_tried rd encodings_to_try) \<le> 5"
    using encodings_tried_le [of _ encodings_to_try]
    by (simp add: length_encodings_to_try split: option.splits)
  show ?thesis
  proof (cases w rule: main_cases)
    case profile_absent
    then show ?thesis using bound by (simp add: reads_of_simps writes_of_simps)
  next
    case profile_malformed
    then show ?thesis using bound by (simp add: reads_of_simps writes_of_simps)
  next
    case (metrics_malformed profile)
    then show ?thesis using bound by (simp add: reads_of_simps writes_of_simps)
  next
    case (table_absent profile mtr metrics)
    then show ?thesis by (auto simp: reads_of_simps writes_of_simps)
  next
    case (table_unreadable profile mtr metrics rd e)
    then show ?thesis using bound by (auto simp: reads_of_simps writes_of_simps)
  next
    case (loaded profile mtr metrics rd raw df)
    then show ?thesis
      using bound outputs_trace_counts(2) [of _ w profile metrics df]
      by (auto simp: reads_of_simps writes_of_simps outputs_trace_counts)
  qed
qed

lemma cp1250_loop:
  "read_csv_loop cp1250_reader encodings_to_try None
     = (replicate 3 (Read PUBLICATIONS_CSV), Inr sample_table)"
  by (simp add: encodings_to_try_def cp1250_reader_def numeral_3_eq_3)

text \<open>
  The claim as it is written fails on a table that is not UTF-8: the run of \<open>cp1250_world\<close>
  reads the table three times, under \<open>utf-8-sig\<close>, \<open>utf-8\<close> and \<open>cp1250\<close>.
\<close>

theorem reads_once_counterexample:
  "reads_of PUBLICATIONS_CSV (fst (main cp1250_world)) = 3"
proof -
  have "main cp1250_world =
     ([Exists PROFILE_JSON, Read PROFILE_JSON] @ [Exists METRICS_JSON]
        @ [Exists PUBLICATIONS_CSV] @ replicate 3 (Read PUBLICATIONS_CSV)
        @ outputs_trace cp1250_world sample_profile default_metrics sample_df,
      if reportlab_installed cp1250_world then Inr () else Inl ImportError)"
    by (rule main_after_loads [OF _ _ _ cp1250_loop coerce_sample_table])
      (simp_all add: cp1250_world_def complete_world_def load_scholar_metrics_def)
  then show ?thesis
    by (simp add: reads_of_simps outputs_trace_counts)
qed

text \<open>
  C5, as the code has it. A run fails with a file-not-found error exactly when
  \<^verbatim>\<open>profile.json\<close> is absent, or the table is absent while \<^verbatim>\<open>profile.json\<close> holds an
  object and \<^verbatim>\<open>metrics.json\<close> is absent or holds one. Whenever the profile or the
  table is absent the run fails, and it writes none of its outputs.
\<close>

theorem missing_input_fails_before_writing:
  "((snd (main w) = Inl FileNotFoundError)
      = (profile_file w = Absent
         \<or> (publications_file w = None \<and> (\<exists>profile. profile_file w = Content profile)
             \<and> metrics_file w \<noteq> Malformed)))
   \<and> (profile_file w = Absent \<or> publications_file w = None \<longrightarrow>
        (\<exists>e. snd (main w) = Inl e) \<and> (\<forall>p. writes_of p (fst (main w)) = 0))"
proof (cases w rule: main_cases)
  case profile_absent
  then show ?thesis by (simp add: writes_of_simps)
next
  case profile_malformed
  then show ?thesis by (simp add: writes_of_simps)
next
  case (metrics_malformed profile)
  then show ?thesis by (simp add: writes_of_simps)
next
  case (table_absent profile mtr metrics)
  then show ?thesis by (auto simp: writes_of_simps)
next
  case (table_unreadable profile mtr metrics rd e)
  then show ?thesis by (auto simp: writes_of_simps)
next
  case (loaded profile mtr metrics rd raw df)
  then show ?thesis by (auto simp: writes_of_simps)
qed

theorem missing_input_fails_before_writing_witness:
  "publications_file no_table_world = None
   \<and> snd (main no_table_world) = Inl FileNotFoundError
   \<and> writes_of PUBLICATIONS_JSON (fst (main no_table_world)) = 0
   \<and> writes_of SUMMARY_JSON (fst (main no_table_world)) = 0
   \<and> writes_of CV_PDF (fst (main no_table_world)) = 0
   \<and> writes_of CV_DOCX (fst (main no_table_world)) = 0"
proof -
  have "publications_file no_table_world = None"
    by (simp add: no_table_world_def)
  moreover have "profile_file no_table_world = Content sample_profile"
    and "metrics_file no_table_world \<noteq> Malformed"
    by (simp_all add: no_table_world_def complete_world_def)
  ultimately show ?thesis
    using missing_input_fails_before_writing [of no_table_world] by auto
qed

text \<open>
  The claim as it is written fails when the table is absent and \<^verbatim>\<open>profile.json\<close> is not
  valid JSON: the run of \<open>broken_profile_world\<close> ends in \<^verbatim>\<open>load_profile\<close> with the error
  of \<^verbatim>\<open>json.loads\<close>, before it looks for the table.
\<close>

theorem file_not_found_counterexample:
  "publications_file broken_profile_world = None
   \<and> main broken_profile_world
       = ([Exists PROFILE_JSON, Read PROFILE_JSON], Inl JSONDecodeError)"
  by (simp add: main_profile_malformed broken_profile_world_def no_table_world_def)






section \<open>The order of the records\<close>

lemma more_years:
  "safe_int (PStr ''in press'') = Inr None"
  by (simp add: str_eval float_eval)

lemma more_dates:
  "parse_date_ddmmyyyy (PStr ''05.06.2019'')
     = Inr (Some \<lparr>d_year = 2019, d_month = 6, d_day = 5\<rparr>)"
  by (simp add: str_eval date_eval)

lemma timestamp_talk_2019: "timestamp \<lparr>d_year = 2019, d_month = 6, d_day = 5\<rparr> = 1559692800"
  by (simp add: timestamp_def toordinal_def days_before_year_def days_before_month_def
      days_in_month_def is_leap_def upt_rec)

lemmas more_row_eval = paper_2021_def talk_2019_def in_press_def article_c_def chapter_a_def

lemma coerce_with_in_press:
  "coerce_columns [paper_2021, talk_2019, in_press] =
     Inr [with_columns paper_2021 (YFloat (Fin 2021)) None None None None,
          with_columns talk_2019 (YFloat (Fin 2019)) None None
            (Some \<lparr>d_year = 2019, d_month = 6, d_day = 5\<rparr>) None,
          with_columns in_press (YFloat NaN) None None None None]"
  by (simp add: coerce_columns_def bind_exn_def more_row_eval empty_row_def sample_years
      more_years sample_floats sample_dates more_dates infer_year_column_def)

lemma coerce_without_in_press:
  "coerce_columns [paper_2021, talk_2019] =
     Inr [with_columns paper_2021 (YInt 2021) None None None None,
          with_columns talk_2019 (YInt 2019) None None
            (Some \<lparr>d_year = 2019, d_month = 6, d_day = 5\<rparr>) None]"
  by (simp add: coerce_columns_def bind_exn_def more_row_eval empty_row_def sample_years
      sample_floats sample_dates more_dates infer_year_column_def)

lemma export_sort_key_with_columns:
  "export_sort_key (with_columns r y p f s e) =
     ((case y of YInt i \<Rightarrow> i | _ \<Rightarrow> - 1), (case s of Some dt \<Rightarrow> timestamp dt | None \<Rightarrow> 0))"
  by (simp add: export_sort_key_def with_columns_def)

lemma year_keep_cols: "year (keep_cols (with_columns r y p f s e)) = year r"
  by (simp add: keep_cols_def with_columns_def)

text \<open>
  C4 at a table with a year that is not a number. The rows are a paper of 2021, a talk of
  2019 with its date, and a paper in press. The claim asks for the order 2021, 2019, in
  press. With one year that does not parse, \<open>year_int\<close> is a column of floats, no cell of it
  is an int, every row gets the year \<open>-1\<close>, and the dates alone decide: the talk of 2019
  comes first. Without the paper in press the same two rows come out as 2021, 2019.
\<close>

theorem export_order_with_unparsed_year:
  "(\<exists>df. coerce_columns [paper_2021, talk_2019, in_press] = Inr df
      \<and> map export_sort_key df = [(- 1, 0), (- 1, 1559692800), (- 1, 0)]
      \<and> map year (export_records df) = [''2019'', ''2021'', ''in press''])
   \<and> (\<exists>df. coerce_columns [paper_2021, talk_2019] = Inr df
      \<and> map export_sort_key df = [(2021, 0), (2019, 1559692800)]
      \<and> map year (export_records df) = [''2021'', ''2019''])"
proof -
  have y: "year paper_2021 = ''2021''" "year talk_2019 = ''2019''" "year in_press = ''in press''"
    by (simp_all add: more_row_eval empty_row_def)
  have "map export_sort_key
          [with_columns paper_2021 (YFloat (Fin 2021)) None None None None,
           with_columns talk_2019 (YFloat (Fin 2019)) None None
             (Some \<lparr>d_year = 2019, d_month = 6, d_day = 5\<rparr>) None,
           with_columns in_press (YFloat NaN) None None None None]
        = [(- 1, 0), (- 1, 1559692800), (- 1, 0)]"
    by (simp add: export_sort_key_with_columns timestamp_talk_2019)
  moreover have "map year (export_records
          [with_columns paper_2021 (YFloat (Fin 2021)) None None None None,
           with_columns talk_2019 (YFloat (Fin 2019)) None None
             (Some \<lparr>d_year = 2019, d_month = 6, d_day = 5\<rparr>) None,
           with_columns in_press (YFloat NaN) None None None None])
        = [''2019'', ''2021'', ''in press'']"
    by (simp add: export_records_def sort_values_desc_def export_sort_key_with_columns
        timestamp_talk_2019 year_keep_cols y)
  moreover have "map export_sort_key
          [with_columns paper_2021 (YInt 2021) None None None None,
           with_columns talk_2019 (YInt 2019) None None
             (Some \<lparr>d_year = 2019, d_month = 6, d_day = 5\<rparr>) None]
        = [(2021, 0), (2019, 1559692800)]"
    by (simp add: export_sort_key_with_columns timestamp_talk_2019)
  moreover have "map year (export_records
          [with_columns paper_2021 (YInt 2021) None None None None,
           with_columns talk_2019 (YInt 2019) None None
             (Some \<lparr>d_year = 2019, d_month = 6, d_day = 5\<rparr>) None])
        = [''2021'', ''2019'']"
    by (simp add: export_records_def sort_values_desc_def export_sort_key_with_columns
        timestamp_talk_2019 year_keep_cols y)
  ultimately show ?thesis
    using coerce_with_in_press coerce_without_in_press by simp
qed

text \<open>
  What holds of the order for every table: the records are those of the rows, in
  descending order of the key \<open>(year, timestamp)\<close>; the year of the key is the parsed year
  when every year of the table parses.
\<close>

lemma sorted_sort_values_desc:
  "sorted_wrt (\<lambda>a b. key b \<le> key a) (sort_values_desc key rows)"
proof -
  have "sorted (map key (sort_key key (rev rows)))" by simp
  then have "sorted_wrt (\<lambda>a b. key a \<le> key b) (sort_key key (rev rows))"
    by (simp add: sorted_map)
  then show ?thesis
    by (simp add: sort_values_desc_def sorted_wrt_rev)
qed

lemma mset_sort_values_desc: "mset (sort_values_desc key rows) = mset rows"
  by (simp add: sort_values_desc_def)

lemma export_records_ordered:
  "\<exists>rows. export_records df = map keep_cols rows \<and> mset rows = mset df
     \<and> sorted_wrt (\<lambda>a b. export_sort_key b \<le> export_sort_key a) rows"
  unfolding export_records_def
  using sorted_sort_values_desc [of export_sort_key df] mset_sort_values_desc [of export_sort_key df]
  by blast

section \<open>The rows of the three outputs\<close>

lemma mset_map_sort_values_desc:
  "mset (map h (sort_values_desc key rows)) = mset (map h rows)"
  by (simp add: mset_sort_values_desc)

lemma mset_years_split:
  "mset (map snd (List.map_filter (\<lambda>(y, r). map_option (\<lambda>i. (i, r)) y) ps))
     + mset (map snd (filter (\<lambda>(y, r). y = None) ps))
   = mset (map snd ps)"
proof (induction ps)
  case Nil
  show ?case by simp
next
  case (Cons p ps)
  obtain y r where p: "p = (y, r)" by (cases p)
  with Cons show ?case
    by (cases y) simp_all
qed

lemma mset_sort_by_year_desc: "mset (sort_by_year_desc ps) = mset (map snd ps)"
proof -
  have "mset (sort_by_year_desc ps)
      = mset (map snd (List.map_filter (\<lambda>(y, r). map_option (\<lambda>i. (i, r)) y) ps))
        + mset (map snd (filter (\<lambda>(y, r). y = None) ps))"
    by (simp add: sort_by_year_desc_def mset_sort_values_desc)
  then show ?thesis
    by (simp only: mset_years_split)
qed

lemma map_snd_zip_map: "map snd (zip (map f xs) xs) = xs"
  by (induction xs) simp_all

lemma map_snd_snd_zip_map: "map (\<lambda>k. snd (snd k)) (zip (map f xs) (zip (map g xs) xs)) = xs"
  by (induction xs) simp_all

lemma mset_year_section:
  "mset (sort_by_year_desc (zip (map f (filter msk df)) (filter msk df))) = mset (filter msk df)"
  by (simp add: mset_sort_by_year_desc map_snd_zip_map)

lemma mset_conference_section:
  "mset (map (\<lambda>k. snd (snd k)) (sort_values_desc conf_sort_key
      (zip (map f (filter msk df)) (zip (map g (filter msk df)) (filter msk df)))))
   = mset (filter msk df)"
  by (simp only: mset_map_sort_values_desc map_snd_snd_zip_map)

lemma loaded_keep_cols: "coerce_columns raw = Inr df \<Longrightarrow> map keep_cols df = raw"
  by (simp add: coerce_columns_eq) (auto simp: assemble_columns length_infer_year_column)

lemma mset_export_records: "mset (export_records df) = mset (map keep_cols df)"
  by (simp add: export_records_def mset_sort_values_desc)

text \<open>
  C3, as the code has it. Every row of the table is a record of \<^verbatim>\<open>publications.json\<close>,
  once. The PDF and the DOCX have the same four sections, and a section lists the rows of
  its mask, each once: category \<open>A\<close>; category \<open>B\<close>; a book chapter by its record type or
  its category; a conference contribution by its record type or its category. A row of no
  mask is in no section, a row of several masks in each of their sections.
\<close>

theorem records_and_sections:
  "\<exists>df sa sb sc sd.
     coerce_columns raw = Inr df
     \<and> mset (export_records df) = mset raw
     \<and> pdf_sections df =
         Inr [(''Peer-reviewed publications (List A)'', sa),
              (''Other publications (List B)'', sb),
              (''Book chapters'', sc),
              (''Conference contributions'', sd)]
     \<and> docx_sections df = pdf_sections df
     \<and> mset sa = mset (filter is_list_a df)
     \<and> mset sb = mset (filter (\<lambda>r. str_upper (category r) = ''B'') df)
     \<and> mset sc = mset (filter is_chapter df)
     \<and> mset sd = mset (filter is_conf df)"
proof -
  obtain df where df: "coerce_columns raw = Inr df"
    using coerce_columns_total by blast
  have "mset (export_records df) = mset raw"
    by (simp only: mset_export_records loaded_keep_cols [OF df])
  with df show ?thesis
    unfolding pdf_sections_eq_docx docx_sections_eq
    by (intro exI conjI)
      (assumption | rule refl mset_year_section mset_conference_section)+
qed

lemma coerce_two_rows:
  "coerce_columns [article_c, chapter_a] =
     Inr [with_columns article_c (YInt 2020) None None None None,
          with_columns chapter_a (YInt 2021) None None None None]"
  by (simp add: coerce_columns_def bind_exn_def more_row_eval empty_row_def sample_years
      sample_floats sample_dates infer_year_column_def)

text \<open>
  The claim as it is written fails on the table \<open>[article_c, chapter_a]\<close>: the article of
  category \<open>C\<close> is in no section of the CV, and the chapter of category \<open>A\<close> is in two.
\<close>

theorem sections_counterexample:
  "coerce_columns [article_c, chapter_a] =
     Inr [with_columns article_c (YInt 2020) None None None None,
          with_columns chapter_a (YInt 2021) None None None None]
   \<and> pdf_sections [with_columns article_c (YInt 2020) None None None None,
                   with_columns chapter_a (YInt 2021) None None None None] =
       Inr [(''Peer-reviewed publications (List A)'',
               [with_columns chapter_a (YInt 2021) None None None None]),
            (''Other publications (List B)'', []),
            (''Book chapters'', [with_columns chapter_a (YInt 2021) None None None None]),
            (''Conference contributions'', [])]
   \<and> docx_sections [with_columns article_c (YInt 2020) None None None None,
                    with_columns chapter_a (YInt 2021) None None None None] =
       Inr [(''Peer-reviewed publications (List A)'',
               [with_columns chapter_a (YInt 2021) None None None None]),
            (''Other publications (List B)'', []),
            (''Book chapters'', [with_columns chapter_a (YInt 2021) None None None None]),
            (''Conference contributions'', [])]"
proof -
  have masks:
    "\<not> is_list_a (with_columns article_c (YInt 2020) None None None None)"
    "is_list_a (with_columns chapter_a (YInt 2021) None None None None)"
    "str_upper (category (with_columns article_c (YInt 2020) None None None None)) \<noteq> ''B''"
    "str_upper (category (with_columns chapter_a (YInt 2021) None None None None)) \<noteq> ''B''"
    "\<not> is_chapter (with_columns article_c (YInt 2020) None None None None)"
    "is_chapter (with_columns chapter_a (YInt 2021) None None None None)"
    "\<not> is_conf (with_columns article_c (YInt 2020) None None None None)"
    "\<not> is_conf (with_columns chapter_a (YInt 2021) None None None None)"
    by (simp_all add: mask_eval more_row_eval empty_row_def str_eval)
  have yr: "year (with_columns chapter_a (YInt 2021) None None None None) = ''2021''"
    by (simp add: with_columns_def chapter_a_def empty_row_def)
  have "docx_sections [with_columns article_c (YInt 2020) None None None None,
                    with_columns chapter_a (YInt 2021) None None None None] =
       Inr [(''Peer-reviewed publications (List A)'',
               [with_columns chapter_a (YInt 2021) None None None None]),
            (''Other publications (List B)'', []),
            (''Book chapters'', [with_columns chapter_a (YInt 2021) None None None None]),
            (''Conference contributions'', [])]"
    unfolding docx_sections_eq
    by (simp add: masks yr sample_years result_of_def sort_by_year_desc_def
        sort_values_desc_def List.map_filter_simps)
  then show ?thesis
    using coerce_two_rows by (simp only: pdf_sections_eq_docx simp_thms)
qed

end
